theory Spec2Isabelle
  imports Main "HOL-Library.AList"
begin

section \<open>Python values and the operations the module applies to them\<close>

text \<open>
  The module \<^verbatim>\<open>django_remote_forms/fields.py\<close> is duck-typed: an adapter wraps any
  object and reads its attributes by name. Values are therefore one datatype; an instance
  of a class is its class name with its attributes (in \<^verbatim>\<open>__dict__\<close> order), a
  zero-argument callable is the value it returns when called.
\<close>

datatype pyval =
    PNone
  | PBool bool
  | PInt int
  | PStr string
  | PList "pyval list"
  | PTuple "pyval list"
  | PDict "(string \<times> pyval) list"
  | PDate nat nat nat
  | PTime nat nat nat
  | PDateTime nat nat nat nat nat nat
  | PCallable pyval
  | PObj string "(string \<times> pyval) list"

text \<open>Exceptions are values; \<open>AttributeError\<close> carries its message, \<open>ValidationError\<close>
  its code.\<close>

datatype error =
    AttributeError string
  | KeyError string
  | IndexError
  | TypeError
  | ValueError
  | ValidationError string

fun error_str :: "error \<Rightarrow> string" where
  "error_str (AttributeError m) = m"
| "error_str (KeyError k) = k"
| "error_str IndexError = ''list index out of range''"
| "error_str TypeError = ''TypeError''"
| "error_str ValueError = ''ValueError''"
| "error_str (ValidationError c) = c"

definition bind_err :: "error + 'a \<Rightarrow> ('a \<Rightarrow> error + 'b) \<Rightarrow> error + 'b" where
  "bind_err m f = (case m of Inl e \<Rightarrow> Inl e | Inr x \<Rightarrow> f x)"

text \<open>Truth value testing (\<^verbatim>\<open>if x\<close>, \<^verbatim>\<open>x or y\<close>, \<^verbatim>\<open>not x\<close>): \<^verbatim>\<open>None\<close>,
  \<^verbatim>\<open>False\<close>, zero and empty containers are false; dates, times, callables and plain
  instances are true.\<close>

fun truthy :: "pyval \<Rightarrow> bool" where
  "truthy PNone = False"
| "truthy (PBool b) = b"
| "truthy (PInt i) = (i \<noteq> 0)"
| "truthy (PStr s) = (s \<noteq> [])"
| "truthy (PList xs) = (xs \<noteq> [])"
| "truthy (PTuple xs) = (xs \<noteq> [])"
| "truthy (PDict kvs) = (kvs \<noteq> [])"
| "truthy (PDate y m d) = True"
| "truthy (PTime h m s) = True"
| "truthy (PDateTime y mo d h mi s) = True"
| "truthy (PCallable r) = True"
| "truthy (PObj c attrs) = True"

text \<open>\<^verbatim>\<open>x.__class__.__name__\<close>.\<close>

fun class_name :: "pyval \<Rightarrow> string" where
  "class_name PNone = ''NoneType''"
| "class_name (PBool b) = ''bool''"
| "class_name (PInt i) = ''int''"
| "class_name (PStr s) = ''str''"
| "class_name (PList xs) = ''list''"
| "class_name (PTuple xs) = ''tuple''"
| "class_name (PDict kvs) = ''dict''"
| "class_name (PDate y m d) = ''date''"
| "class_name (PTime h m s) = ''time''"
| "class_name (PDateTime y mo d h mi s) = ''datetime''"
| "class_name (PCallable r) = ''function''"
| "class_name (PObj c attrs) = c"

definition quoted :: "string \<Rightarrow> string" where
  "quoted s = [CHR 0x27] @ s @ [CHR 0x27]"

definition no_attribute :: "pyval \<Rightarrow> string \<Rightarrow> error" where
  "no_attribute x name =
     AttributeError (quoted (class_name x) @ '' object has no attribute '' @ quoted name)"

text \<open>\<^verbatim>\<open>x.name\<close>: the attribute of an instance, \<^verbatim>\<open>AttributeError\<close> when it has none.
  None of the attribute names the module reads is an attribute of a built-in value.\<close>

fun getattr :: "pyval \<Rightarrow> string \<Rightarrow> error + pyval" where
  "getattr (PObj c attrs) name =
     (case map_of attrs name of Some v \<Rightarrow> Inr v | None \<Rightarrow> Inl (no_attribute (PObj c attrs) name))"
| "getattr x name = Inl (no_attribute x name)"

text \<open>\<^verbatim>\<open>getattr(x, name, default)\<close>.\<close>

definition getattr_default :: "pyval \<Rightarrow> string \<Rightarrow> pyval \<Rightarrow> pyval" where
  "getattr_default x name dflt = (case getattr x name of Inr v \<Rightarrow> v | Inl e \<Rightarrow> dflt)"

text \<open>\<^verbatim>\<open>callable(x)\<close> and \<^verbatim>\<open>x()\<close>.\<close>

fun callable :: "pyval \<Rightarrow> bool" where
  "callable (PCallable r) = True"
| "callable x = False"

fun call :: "pyval \<Rightarrow> error + pyval" where
  "call (PCallable r) = Inr r"
| "call x = Inl TypeError"

text \<open>\<^verbatim>\<open>isinstance\<close> against the classes of module \<^verbatim>\<open>datetime\<close>:
  \<^verbatim>\<open>datetime.datetime\<close> is a subclass of \<^verbatim>\<open>datetime.date\<close>, so a combined value is
  an instance of both.\<close>

fun isinstance_date :: "pyval \<Rightarrow> bool" where
  "isinstance_date (PDate y m d) = True"
| "isinstance_date (PDateTime y mo d h mi s) = True"
| "isinstance_date x = False"

fun isinstance_time :: "pyval \<Rightarrow> bool" where
  "isinstance_time (PTime h m s) = True"
| "isinstance_time x = False"

fun isinstance_datetime :: "pyval \<Rightarrow> bool" where
  "isinstance_datetime (PDateTime y mo d h mi s) = True"
| "isinstance_datetime x = False"

text \<open>\<^verbatim>\<open>len(x)\<close> and \<^verbatim>\<open>x[0]\<close>.\<close>

fun py_len :: "pyval \<Rightarrow> error + nat" where
  "py_len (PStr s) = Inr (length s)"
| "py_len (PList xs) = Inr (length xs)"
| "py_len (PTuple xs) = Inr (length xs)"
| "py_len (PDict kvs) = Inr (length kvs)"
| "py_len x = Inl TypeError"

fun first_of :: "pyval list \<Rightarrow> error + pyval" where
  "first_of [] = Inl IndexError"
| "first_of (x # xs) = Inr x"

fun py_index0 :: "pyval \<Rightarrow> error + pyval" where
  "py_index0 (PList xs) = first_of xs"
| "py_index0 (PTuple xs) = first_of xs"
| "py_index0 (PStr s) = (case s of [] \<Rightarrow> Inl IndexError | c # cs \<Rightarrow> Inr (PStr [c]))"
| "py_index0 (PDict kvs) = Inl (KeyError ''0'')"
| "py_index0 x = Inl TypeError"

text \<open>Iteration (\<^verbatim>\<open>for x in v\<close>) and the unpacking of a two-element sequence
  (\<^verbatim>\<open>for key, value in ...\<close>).\<close>

fun py_iter :: "pyval \<Rightarrow> error + pyval list" where
  "py_iter (PList xs) = Inr xs"
| "py_iter (PTuple xs) = Inr xs"
| "py_iter (PStr s) = Inr (map (\<lambda>c. PStr [c]) s)"
| "py_iter (PDict kvs) = Inr (map (\<lambda>kv. PStr (fst kv)) kvs)"
| "py_iter x = Inl TypeError"

definition unpack2 :: "pyval \<Rightarrow> error + (pyval \<times> pyval)" where
  "unpack2 v = bind_err (py_iter v) (\<lambda>xs.
     case xs of [a, b] \<Rightarrow> Inr (a, b) | _ \<Rightarrow> Inl ValueError)"

text \<open>\<^verbatim>\<open>str(x)\<close>. The text of a string, an integer, a boolean and \<^verbatim>\<open>None\<close> is fixed
  by the language; the text of any other value comes from its own \<^verbatim>\<open>__str__\<close>, which
  is a parameter here.\<close>

definition digit_char :: "nat \<Rightarrow> char" where
  "digit_char d = char_of (48 + d)"

fun decimal :: "nat \<Rightarrow> string" where
  "decimal n = (if n < 10 then [digit_char n] else decimal (n div 10) @ [digit_char (n mod 10)])"

declare decimal.simps [simp del]

fun py_str :: "(pyval \<Rightarrow> string) \<Rightarrow> pyval \<Rightarrow> string" where
  "py_str other (PStr s) = s"
| "py_str other PNone = ''None''"
| "py_str other (PBool b) = (if b then ''True'' else ''False'')"
| "py_str other (PInt i) = (if i < 0 then ''-'' @ decimal (nat (- i)) else decimal (nat i))"
| "py_str other x = other x"

text \<open>\<^verbatim>\<open>s.split(sep)\<close> with a one-character separator: one token more than there are
  separators, empty tokens kept. \<^verbatim>\<open>sep.join(xs)\<close> is its inverse.\<close>

fun split :: "char \<Rightarrow> string \<Rightarrow> string list" where
  "split sep [] = [[]]"
| "split sep (c # cs) =
     (if c = sep then [] # split sep cs
      else (c # hd (split sep cs)) # tl (split sep cs))"

fun join :: "string \<Rightarrow> string list \<Rightarrow> string" where
  "join sep [] = []"
| "join sep [x] = x"
| "join sep (x # y # ys) = x @ sep @ join sep (y # ys)"

text \<open>\<^verbatim>\<open>d[k] = v\<close> on an ordered dictionary is \<^const>\<open>AList.update\<close>: the value is
  replaced in place when the key is there, and appended otherwise. \<^verbatim>\<open>d[k]\<close> raises
  \<^verbatim>\<open>KeyError\<close> on a missing key.\<close>

type_synonym pydict = "(string \<times> pyval) list"

definition dict_get :: "pydict \<Rightarrow> string \<Rightarrow> error + pyval" where
  "dict_get d k = (case map_of d k of Some v \<Rightarrow> Inr v | None \<Rightarrow> Inl (KeyError k))"


section \<open>The field adapters\<close>

subsection \<open>What the module imports\<close>

text \<open>
  The module reads three lists of \<^verbatim>\<open>django.conf.settings\<close>, calls \<^verbatim>\<open>strftime\<close> and
  \<^verbatim>\<open>str\<close> of the standard library, and looks adapter classes up by name in the module
  \<^verbatim>\<open>django_remote_forms.widgets\<close>. They are the environment of every adapter. A widget
  adapter class is what constructing it on a widget and a field name and calling its
  \<^verbatim>\<open>as_dict\<close> gives; \<open>widgets env name\<close> is \<open>None\<close> when the module has no attribute
  of that name.
\<close>

type_synonym widget_class = "pyval \<Rightarrow> pyval \<Rightarrow> error + pyval"

record env =
  widgets :: "string \<Rightarrow> widget_class option"
  DATE_INPUT_FORMATS :: pyval
  TIME_INPUT_FORMATS :: pyval
  DATETIME_INPUT_FORMATS :: pyval
  strftime :: "pyval \<Rightarrow> string \<Rightarrow> string"
  str_other :: "pyval \<Rightarrow> string"

definition DEFAULT_REMOTE_WIDGET_CLASS_NAME :: string where
  "DEFAULT_REMOTE_WIDGET_CLASS_NAME = ''DefaultRemoteInput''"

text \<open>\<^verbatim>\<open>getattr(widgets, name)\<close>.\<close>

definition widgets_getattr :: "env \<Rightarrow> string \<Rightarrow> error + widget_class" where
  "widgets_getattr env name =
     (case widgets env name of
        Some cls \<Rightarrow> Inr cls
      | None \<Rightarrow> Inl (AttributeError (''module '' @ quoted ''django_remote_forms.widgets'' @
                 '' has no attribute '' @ quoted name)))"

text \<open>\<^verbatim>\<open>x.strftime(fmt)\<close>; the format has to be a string.\<close>

definition py_strftime :: "env \<Rightarrow> pyval \<Rightarrow> pyval \<Rightarrow> error + pyval" where
  "py_strftime env x fmt =
     (case fmt of PStr f \<Rightarrow> Inr (PStr (strftime env x f)) | _ \<Rightarrow> Inl TypeError)"

text \<open>The log of \<^verbatim>\<open>logger.warning('Error serializing %s: %s', name, text)\<close>: one entry,
  the two arguments, per call.\<close>

type_synonym log = "(string \<times> string) list"

type_synonym result = "log \<times> (error + pydict)"

subsection \<open>\<^verbatim>\<open>RemoteField\<close>\<close>

record remote_field =
  field_name :: pyval
  field :: pyval
  form_initial_data :: pyval

text \<open>Lines 31-39 of \<^verbatim>\<open>RemoteField.as_dict\<close>: the seven keys read off the field. The
  \<^verbatim>\<open>or\<close> reads \<^verbatim>\<open>self.field.initial\<close> only when the form's value is false.\<close>

definition form_or_field_initial :: "remote_field \<Rightarrow> error + pyval" where
  "form_or_field_initial self =
     (if truthy (form_initial_data self) then Inr (form_initial_data self)
      else getattr (field self) ''initial'')"

definition field_attributes :: "remote_field \<Rightarrow> error + pydict" where
  "field_attributes self =
     bind_err (getattr (field self) ''required'') (\<lambda>required.
     bind_err (getattr (field self) ''label'') (\<lambda>label.
     bind_err (form_or_field_initial self) (\<lambda>initial.
     bind_err (getattr (field self) ''help_text'') (\<lambda>help_text.
     bind_err (getattr (field self) ''disabled'') (\<lambda>disabled.
     bind_err (getattr (field self) ''error_messages'') (\<lambda>error_messages.
       Inr [(''title'', PStr (class_name (field self))),
            (''required'', required),
            (''label'', label),
            (''initial'', initial),
            (''help_text'', help_text),
            (''disabled'', disabled),
            (''error_messages'', error_messages)]))))))"

text \<open>Lines 44-48: the lookup by name. Any exception of the first \<^verbatim>\<open>getattr\<close> is
  caught and logged; the second \<^verbatim>\<open>getattr\<close> is outside the \<^verbatim>\<open>try\<close>.\<close>

definition remote_widget_class :: "env \<Rightarrow> string \<Rightarrow> log \<times> (error + widget_class)" where
  "remote_widget_class env remote_widget_class_name =
     (case widgets_getattr env remote_widget_class_name of
        Inr cls \<Rightarrow> ([], Inr cls)
      | Inl e \<Rightarrow> ([(remote_widget_class_name, error_str e)],
                  widgets_getattr env DEFAULT_REMOTE_WIDGET_CLASS_NAME))"

definition RemoteField_as_dict :: "env \<Rightarrow> remote_field \<Rightarrow> result" where
  "RemoteField_as_dict env self =
     (case field_attributes self of
        Inl e \<Rightarrow> ([], Inl e)
      | Inr field_dict \<Rightarrow>
          (case getattr (field self) ''widget'' of
             Inl e \<Rightarrow> ([], Inl e)
           | Inr widget \<Rightarrow>
               (case remote_widget_class env (''Remote'' @ class_name widget) of
                  (lg, cls) \<Rightarrow>
                    (lg, bind_err cls (\<lambda>cls.
                         bind_err (cls widget (field_name self)) (\<lambda>widget_dict.
                           Inr (AList.update ''widget'' widget_dict field_dict)))))))"

text \<open>A subclass calls \<^verbatim>\<open>super().as_dict()\<close> first and works on what it returns; an
  exception of the superclass propagates.\<close>

definition after_super :: "result \<Rightarrow> (pydict \<Rightarrow> error + pydict) \<Rightarrow> result" where
  "after_super r f = (case r of (lg, Inl e) \<Rightarrow> (lg, Inl e) | (lg, Inr field_dict) \<Rightarrow> (lg, f field_dict))"

subsection \<open>Numbers, text and files\<close>

definition RemoteCharField_as_dict :: "env \<Rightarrow> remote_field \<Rightarrow> result" where
  "RemoteCharField_as_dict env self =
     after_super (RemoteField_as_dict env self) (\<lambda>field_dict.
       bind_err (getattr (field self) ''max_length'') (\<lambda>max_length.
       bind_err (getattr (field self) ''min_length'') (\<lambda>min_length.
         Inr (AList.update ''min_length'' min_length
               (AList.update ''max_length'' max_length field_dict)))))"

definition RemoteIntegerField_as_dict :: "env \<Rightarrow> remote_field \<Rightarrow> result" where
  "RemoteIntegerField_as_dict env self =
     after_super (RemoteField_as_dict env self) (\<lambda>field_dict.
       bind_err (getattr (field self) ''max_value'') (\<lambda>max_value.
       bind_err (getattr (field self) ''min_value'') (\<lambda>min_value.
         Inr (AList.update ''min_value'' min_value
               (AList.update ''max_value'' max_value field_dict)))))"

definition RemoteFloatField_as_dict :: "env \<Rightarrow> remote_field \<Rightarrow> result" where
  "RemoteFloatField_as_dict env self = RemoteIntegerField_as_dict env self"

definition RemoteDecimalField_as_dict :: "env \<Rightarrow> remote_field \<Rightarrow> result" where
  "RemoteDecimalField_as_dict env self =
     after_super (RemoteIntegerField_as_dict env self) (\<lambda>field_dict.
       bind_err (getattr (field self) ''max_digits'') (\<lambda>max_digits.
       bind_err (getattr (field self) ''decimal_places'') (\<lambda>decimal_places.
         Inr (AList.update ''decimal_places'' decimal_places
               (AList.update ''max_digits'' max_digits field_dict)))))"

definition RemoteRegexField_as_dict :: "env \<Rightarrow> remote_field \<Rightarrow> result" where
  "RemoteRegexField_as_dict env self = RemoteCharField_as_dict env self"

definition RemoteEmailField_as_dict :: "env \<Rightarrow> remote_field \<Rightarrow> result" where
  "RemoteEmailField_as_dict env self = RemoteCharField_as_dict env self"

definition RemoteFileField_as_dict :: "env \<Rightarrow> remote_field \<Rightarrow> result" where
  "RemoteFileField_as_dict env self =
     after_super (RemoteField_as_dict env self) (\<lambda>field_dict.
       bind_err (getattr (field self) ''max_length'') (\<lambda>max_length.
         Inr (AList.update ''max_length'' max_length field_dict)))"

definition RemoteImageField_as_dict :: "env \<Rightarrow> remote_field \<Rightarrow> result" where
  "RemoteImageField_as_dict env self = RemoteFileField_as_dict env self"

definition RemoteURLField_as_dict :: "env \<Rightarrow> remote_field \<Rightarrow> result" where
  "RemoteURLField_as_dict env self = RemoteCharField_as_dict env self"

definition RemoteBooleanField_as_dict :: "env \<Rightarrow> remote_field \<Rightarrow> result" where
  "RemoteBooleanField_as_dict env self = RemoteField_as_dict env self"

definition RemoteNullBooleanField_as_dict :: "env \<Rightarrow> remote_field \<Rightarrow> result" where
  "RemoteNullBooleanField_as_dict env self = RemoteBooleanField_as_dict env self"

definition RemoteIPAddressField_as_dict :: "env \<Rightarrow> remote_field \<Rightarrow> result" where
  "RemoteIPAddressField_as_dict env self = RemoteCharField_as_dict env self"

definition RemoteGenericIPAddressField_as_dict :: "env \<Rightarrow> remote_field \<Rightarrow> result" where
  "RemoteGenericIPAddressField_as_dict env self = RemoteCharField_as_dict env self"

definition RemoteSlugField_as_dict :: "env \<Rightarrow> remote_field \<Rightarrow> result" where
  "RemoteSlugField_as_dict env self = RemoteCharField_as_dict env self"

definition RemoteComboField_as_dict :: "env \<Rightarrow> remote_field \<Rightarrow> result" where
  "RemoteComboField_as_dict env self =
     after_super (RemoteField_as_dict env self) (\<lambda>field_dict.
       bind_err (getattr (field self) ''fields'') (\<lambda>fields.
         Inr (AList.update ''fields'' fields field_dict)))"

definition RemoteMultiValueField_as_dict :: "env \<Rightarrow> remote_field \<Rightarrow> result" where
  "RemoteMultiValueField_as_dict env self =
     after_super (RemoteField_as_dict env self) (\<lambda>field_dict.
       bind_err (getattr (field self) ''fields'') (\<lambda>fields.
         Inr (AList.update ''fields'' fields field_dict)))"

definition RemoteSplitDateTimeField_as_dict :: "env \<Rightarrow> remote_field \<Rightarrow> result" where
  "RemoteSplitDateTimeField_as_dict env self =
     after_super (RemoteMultiValueField_as_dict env self) (\<lambda>field_dict.
       bind_err (getattr (field self) ''input_date_formats'') (\<lambda>input_date_formats.
       bind_err (getattr (field self) ''input_time_formats'') (\<lambda>input_time_formats.
         Inr (AList.update ''input_time_formats'' input_time_formats
               (AList.update ''input_date_formats'' input_date_formats field_dict)))))"


subsection \<open>Times and dates\<close>

text \<open>Lines 111-117: the default list for a field without input formats. The tests run
  in the order of the source.\<close>

definition default_input_formats :: "env \<Rightarrow> pyval \<Rightarrow> pydict \<Rightarrow> pydict" where
  "default_input_formats env initial field_dict =
     (if isinstance_date initial then
        AList.update ''input_formats'' (DATE_INPUT_FORMATS env) field_dict
      else if isinstance_time initial then
        AList.update ''input_formats'' (TIME_INPUT_FORMATS env) field_dict
      else if isinstance_datetime initial then
        AList.update ''input_formats'' (DATETIME_INPUT_FORMATS env) field_dict
      else field_dict)"

text \<open>Lines 110-120: the conversion of a date, time or datetime value.\<close>

definition format_initial :: "env \<Rightarrow> pydict \<Rightarrow> error + pydict" where
  "format_initial env field_dict =
     bind_err (dict_get field_dict ''initial'') (\<lambda>initial.
       if isinstance_datetime initial \<or> isinstance_time initial \<or> isinstance_date initial then
         bind_err (dict_get field_dict ''input_formats'') (\<lambda>input_formats.
         bind_err (py_len input_formats) (\<lambda>n.
           let field_dict = (if n = 0 then default_input_formats env initial field_dict
                             else field_dict)
           in bind_err (dict_get field_dict ''input_formats'') (\<lambda>input_formats.
              bind_err (py_index0 input_formats) (\<lambda>input_format.
              bind_err (py_strftime env initial input_format) (\<lambda>rendered.
                Inr (AList.update ''initial'' rendered field_dict))))))
       else Inr field_dict)"

definition RemoteTimeField_as_dict :: "env \<Rightarrow> remote_field \<Rightarrow> result" where
  "RemoteTimeField_as_dict env self =
     after_super (RemoteField_as_dict env self) (\<lambda>field_dict.
       bind_err (getattr (field self) ''input_formats'') (\<lambda>input_formats.
         let field_dict = AList.update ''input_formats'' input_formats field_dict
         in bind_err (dict_get field_dict ''initial'') (\<lambda>initial.
              if truthy initial then
                (if callable initial then
                   bind_err (call initial) (\<lambda>v.
                     format_initial env (AList.update ''initial'' v field_dict))
                 else format_initial env field_dict)
              else Inr field_dict)))"

definition RemoteDateField_as_dict :: "env \<Rightarrow> remote_field \<Rightarrow> result" where
  "RemoteDateField_as_dict env self = RemoteTimeField_as_dict env self"

definition RemoteDateTimeField_as_dict :: "env \<Rightarrow> remote_field \<Rightarrow> result" where
  "RemoteDateTimeField_as_dict env self = RemoteTimeField_as_dict env self"

subsection \<open>Choices\<close>

text \<open>Lines 184-188: one entry per pair of \<^verbatim>\<open>self.field.choices\<close>, appended to the list
  under \<^verbatim>\<open>'choices'\<close>.\<close>

definition choice_entry :: "string \<Rightarrow> pyval \<Rightarrow> pyval" where
  "choice_entry v display = PDict [(''value'', PStr v), (''display'', display)]"

fun append_choices :: "env \<Rightarrow> pyval list \<Rightarrow> pyval list \<Rightarrow> error + pyval list" where
  "append_choices env [] out = Inr out"
| "append_choices env (c # cs) out =
     bind_err (unpack2 c) (\<lambda>(key, v).
       append_choices env cs (out @ [choice_entry (py_str (str_other env) key) v]))"

definition RemoteChoiceField_as_dict :: "env \<Rightarrow> remote_field \<Rightarrow> result" where
  "RemoteChoiceField_as_dict env self =
     after_super (RemoteField_as_dict env self) (\<lambda>field_dict.
       bind_err (getattr (field self) ''choices'') (\<lambda>choices.
       bind_err (py_iter choices) (\<lambda>pairs.
       bind_err (append_choices env pairs []) (\<lambda>out.
         Inr (AList.update ''choices'' (PList out) field_dict)))))"

definition RemoteModelChoiceField_as_dict :: "env \<Rightarrow> remote_field \<Rightarrow> result" where
  "RemoteModelChoiceField_as_dict env self =
     after_super (RemoteChoiceField_as_dict env self) (\<lambda>field_dict.
       bind_err (dict_get field_dict ''initial'') (\<lambda>initial.
         Inr (AList.update ''initial'' (getattr_default initial ''pk'' initial) field_dict)))"

definition RemoteTypedChoiceField_as_dict :: "env \<Rightarrow> remote_field \<Rightarrow> result" where
  "RemoteTypedChoiceField_as_dict env self =
     after_super (RemoteChoiceField_as_dict env self) (\<lambda>field_dict.
       bind_err (getattr (field self) ''coerce'') (\<lambda>coerce.
       bind_err (getattr (field self) ''empty_value'') (\<lambda>empty_value.
         Inr (AList.update ''empty_value'' empty_value
               (AList.update ''coerce'' coerce field_dict)))))"

definition RemoteMultipleChoiceField_as_dict :: "env \<Rightarrow> remote_field \<Rightarrow> result" where
  "RemoteMultipleChoiceField_as_dict env self = RemoteChoiceField_as_dict env self"

text \<open>Lines 224-232: one pass over the tokens of the initial value. \<^verbatim>\<open>x not in xs\<close>
  compares with \<^verbatim>\<open>==\<close>; every element of the list is a dictionary that
  \<^const>\<open>append_choices\<close> or this loop built, with the same two keys, and a string equals
  only the same string.\<close>

fun append_initial_options :: "pyval \<Rightarrow> string list \<Rightarrow> pyval list \<Rightarrow> error + pyval list" where
  "append_initial_options fld [] choices = Inr choices"
| "append_initial_options fld (initial_value # rest) choices =
     bind_err (getattr fld ''validate_choices'') (\<lambda>validate_choices.
       let display_value = (if truthy validate_choices then initial_value @ '' (Not valid)''
                            else initial_value);
           initial_option = choice_entry initial_value (PStr display_value)
       in append_initial_options fld rest
            (if initial_option \<notin> set choices then choices @ [initial_option] else choices))"

text \<open>\<^verbatim>\<open>x.split(',')\<close> is a method of strings only.\<close>

definition split_method :: "pyval \<Rightarrow> error + string list" where
  "split_method x = (case x of PStr s \<Rightarrow> Inr (split CHR '','' s) | _ \<Rightarrow> Inl (no_attribute x ''split''))"

definition list_append_all :: "pyval \<Rightarrow> (pyval list \<Rightarrow> error + pyval list) \<Rightarrow> error + pyval" where
  "list_append_all x f = (case x of PList xs \<Rightarrow> bind_err (f xs) (\<lambda>ys. Inr (PList ys))
                          | _ \<Rightarrow> Inl (no_attribute x ''append''))"

definition RemoteCommaSeparatedField_as_dict :: "env \<Rightarrow> remote_field \<Rightarrow> result" where
  "RemoteCommaSeparatedField_as_dict env self =
     after_super (RemoteMultipleChoiceField_as_dict env self) (\<lambda>field_dict.
       bind_err (dict_get field_dict ''initial'') (\<lambda>initial.
         if truthy initial then
           bind_err (split_method initial) (\<lambda>initial_list.
           bind_err (dict_get field_dict ''choices'') (\<lambda>choices.
           bind_err (list_append_all choices (append_initial_options (field self) initial_list))
             (\<lambda>choices. Inr (AList.update ''choices'' choices field_dict))))
         else Inr field_dict))"

definition RemoteModelMultipleChoiceField_as_dict :: "env \<Rightarrow> remote_field \<Rightarrow> result" where
  "RemoteModelMultipleChoiceField_as_dict env self =
     after_super (RemoteMultipleChoiceField_as_dict env self) (\<lambda>field_dict.
       bind_err (dict_get field_dict ''initial'') (\<lambda>initial.
         case initial of
           PList xs \<Rightarrow>
             Inr (AList.update ''initial'' (PList (map (\<lambda>i. getattr_default i ''pk'' i) xs))
                    field_dict)
         | _ \<Rightarrow> Inr (AList.update ''initial'' (getattr_default initial ''pk'' initial)
                      field_dict)))"

definition RemoteTypedMultipleChoiceField_as_dict :: "env \<Rightarrow> remote_field \<Rightarrow> result" where
  "RemoteTypedMultipleChoiceField_as_dict env self =
     after_super (RemoteMultipleChoiceField_as_dict env self) (\<lambda>field_dict.
       bind_err (getattr (field self) ''coerce'') (\<lambda>coerce.
       bind_err (getattr (field self) ''empty_value'') (\<lambda>empty_value.
         Inr (AList.update ''empty_value'' empty_value
               (AList.update ''coerce'' coerce field_dict)))))"

definition RemoteFilePathField_as_dict :: "env \<Rightarrow> remote_field \<Rightarrow> result" where
  "RemoteFilePathField_as_dict env self =
     after_super (RemoteChoiceField_as_dict env self) (\<lambda>field_dict.
       bind_err (getattr (field self) ''path'') (\<lambda>path.
       bind_err (getattr (field self) ''match'') (\<lambda>match.
       bind_err (getattr (field self) ''recursive'') (\<lambda>recursive.
         Inr (AList.update ''recursive'' recursive
               (AList.update ''match'' match
                 (AList.update ''path'' path field_dict)))))))"

subsection \<open>The class hierarchy\<close>

datatype adapter =
    RemoteField | RemoteCharField | RemoteIntegerField | RemoteFloatField
  | RemoteDecimalField | RemoteTimeField | RemoteDateField | RemoteDateTimeField
  | RemoteRegexField | RemoteEmailField | RemoteFileField | RemoteImageField
  | RemoteURLField | RemoteBooleanField | RemoteNullBooleanField | RemoteChoiceField
  | RemoteModelChoiceField | RemoteTypedChoiceField | RemoteMultipleChoiceField
  | RemoteCommaSeparatedField | RemoteModelMultipleChoiceField
  | RemoteTypedMultipleChoiceField | RemoteComboField | RemoteMultiValueField
  | RemoteFilePathField | RemoteSplitDateTimeField | RemoteIPAddressField
  | RemoteGenericIPAddressField | RemoteSlugField

text \<open>The base class named in each \<^verbatim>\<open>class\<close> statement; \<^verbatim>\<open>RemoteField\<close> extends
  \<^verbatim>\<open>object\<close>.\<close>

fun parent :: "adapter \<Rightarrow> adapter option" where
  "parent RemoteField = None"
| "parent RemoteCharField = Some RemoteField"
| "parent RemoteIntegerField = Some RemoteField"
| "parent RemoteFloatField = Some RemoteIntegerField"
| "parent RemoteDecimalField = Some RemoteIntegerField"
| "parent RemoteTimeField = Some RemoteField"
| "parent RemoteDateField = Some RemoteTimeField"
| "parent RemoteDateTimeField = Some RemoteTimeField"
| "parent RemoteRegexField = Some RemoteCharField"
| "parent RemoteEmailField = Some RemoteCharField"
| "parent RemoteFileField = Some RemoteField"
| "parent RemoteImageField = Some RemoteFileField"
| "parent RemoteURLField = Some RemoteCharField"
| "parent RemoteBooleanField = Some RemoteField"
| "parent RemoteNullBooleanField = Some RemoteBooleanField"
| "parent RemoteChoiceField = Some RemoteField"
| "parent RemoteModelChoiceField = Some RemoteChoiceField"
| "parent RemoteTypedChoiceField = Some RemoteChoiceField"
| "parent RemoteMultipleChoiceField = Some RemoteChoiceField"
| "parent RemoteCommaSeparatedField = Some RemoteMultipleChoiceField"
| "parent RemoteModelMultipleChoiceField = Some RemoteMultipleChoiceField"
| "parent RemoteTypedMultipleChoiceField = Some RemoteMultipleChoiceField"
| "parent RemoteComboField = Some RemoteField"
| "parent RemoteMultiValueField = Some RemoteField"
| "parent RemoteFilePathField = Some RemoteChoiceField"
| "parent RemoteSplitDateTimeField = Some RemoteMultiValueField"
| "parent RemoteIPAddressField = Some RemoteCharField"
| "parent RemoteGenericIPAddressField = Some RemoteCharField"
| "parent RemoteSlugField = Some RemoteCharField"

text \<open>\<^verbatim>\<open>cls(field, form_initial_data, field_name).as_dict()\<close>.\<close>

fun as_dict :: "env \<Rightarrow> adapter \<Rightarrow> remote_field \<Rightarrow> result" where
  "as_dict env RemoteField = RemoteField_as_dict env"
| "as_dict env RemoteCharField = RemoteCharField_as_dict env"
| "as_dict env RemoteIntegerField = RemoteIntegerField_as_dict env"
| "as_dict env RemoteFloatField = RemoteFloatField_as_dict env"
| "as_dict env RemoteDecimalField = RemoteDecimalField_as_dict env"
| "as_dict env RemoteTimeField = RemoteTimeField_as_dict env"
| "as_dict env RemoteDateField = RemoteDateField_as_dict env"
| "as_dict env RemoteDateTimeField = RemoteDateTimeField_as_dict env"
| "as_dict env RemoteRegexField = RemoteRegexField_as_dict env"
| "as_dict env RemoteEmailField = RemoteEmailField_as_dict env"
| "as_dict env RemoteFileField = RemoteFileField_as_dict env"
| "as_dict env RemoteImageField = RemoteImageField_as_dict env"
| "as_dict env RemoteURLField = RemoteURLField_as_dict env"
| "as_dict env RemoteBooleanField = RemoteBooleanField_as_dict env"
| "as_dict env RemoteNullBooleanField = RemoteNullBooleanField_as_dict env"
| "as_dict env RemoteChoiceField = RemoteChoiceField_as_dict env"
| "as_dict env RemoteModelChoiceField = RemoteModelChoiceField_as_dict env"
| "as_dict env RemoteTypedChoiceField = RemoteTypedChoiceField_as_dict env"
| "as_dict env RemoteMultipleChoiceField = RemoteMultipleChoiceField_as_dict env"
| "as_dict env RemoteCommaSeparatedField = RemoteCommaSeparatedField_as_dict env"
| "as_dict env RemoteModelMultipleChoiceField = RemoteModelMultipleChoiceField_as_dict env"
| "as_dict env RemoteTypedMultipleChoiceField = RemoteTypedMultipleChoiceField_as_dict env"
| "as_dict env RemoteComboField = RemoteComboField_as_dict env"
| "as_dict env RemoteMultiValueField = RemoteMultiValueField_as_dict env"
| "as_dict env RemoteFilePathField = RemoteFilePathField_as_dict env"
| "as_dict env RemoteSplitDateTimeField = RemoteSplitDateTimeField_as_dict env"
| "as_dict env RemoteIPAddressField = RemoteIPAddressField_as_dict env"
| "as_dict env RemoteGenericIPAddressField = RemoteGenericIPAddressField_as_dict env"
| "as_dict env RemoteSlugField = RemoteSlugField_as_dict env"

text \<open>The keys of the data model: the eight of the base adapter, and what each category
  adds to them along its chain of base classes.\<close>

definition base_keys :: "string list" where
  "base_keys = [''title'', ''required'', ''label'', ''initial'', ''help_text'', ''disabled'',
                ''error_messages'', ''widget'']"

fun extension_keys :: "adapter \<Rightarrow> string list" where
  "extension_keys RemoteField = []"
| "extension_keys RemoteCharField = [''max_length'', ''min_length'']"
| "extension_keys RemoteIntegerField = [''max_value'', ''min_value'']"
| "extension_keys RemoteFloatField = [''max_value'', ''min_value'']"
| "extension_keys RemoteDecimalField =
     [''max_value'', ''min_value'', ''max_digits'', ''decimal_places'']"
| "extension_keys RemoteTimeField = [''input_formats'']"
| "extension_keys RemoteDateField = [''input_formats'']"
| "extension_keys RemoteDateTimeField = [''input_formats'']"
| "extension_keys RemoteRegexField = [''max_length'', ''min_length'']"
| "extension_keys RemoteEmailField = [''max_length'', ''min_length'']"
| "extension_keys RemoteFileField = [''max_length'']"
| "extension_keys RemoteImageField = [''max_length'']"
| "extension_keys RemoteURLField = [''max_length'', ''min_length'']"
| "extension_keys RemoteBooleanField = []"
| "extension_keys RemoteNullBooleanField = []"
| "extension_keys RemoteChoiceField = [''choices'']"
| "extension_keys RemoteModelChoiceField = [''choices'']"
| "extension_keys RemoteTypedChoiceField = [''choices'', ''coerce'', ''empty_value'']"
| "extension_keys RemoteMultipleChoiceField = [''choices'']"
| "extension_keys RemoteCommaSeparatedField = [''choices'']"
| "extension_keys RemoteModelMultipleChoiceField = [''choices'']"
| "extension_keys RemoteTypedMultipleChoiceField = [''choices'', ''coerce'', ''empty_value'']"
| "extension_keys RemoteComboField = [''fields'']"
| "extension_keys RemoteMultiValueField = [''fields'']"
| "extension_keys RemoteFilePathField = [''choices'', ''path'', ''match'', ''recursive'']"
| "extension_keys RemoteSplitDateTimeField =
     [''fields'', ''input_date_formats'', ''input_time_formats'']"
| "extension_keys RemoteIPAddressField = [''max_length'', ''min_length'']"
| "extension_keys RemoteGenericIPAddressField = [''max_length'', ''min_length'']"
| "extension_keys RemoteSlugField = [''max_length'', ''min_length'']"

definition keys :: "pydict \<Rightarrow> string set" where
  "keys d = fst ` set d"


section \<open>\<^verbatim>\<open>CommaSeparatedField\<close>\<close>

text \<open>
  The form field is an instance of a class of this module: a record of the attributes its
  methods use. \<open>choices\<close> holds the (key, label) pairs of the field, \<open>required\<close> and
  \<open>validators\<close> are the attributes of Django's \<^verbatim>\<open>Field\<close> that \<^verbatim>\<open>clean\<close> reads; a
  validator is the set of values it lets through.
\<close>

record comma_separated_field =
  choices :: "(pyval \<times> pyval) list"
  validate_choices :: bool
  required :: bool
  validators :: "(string list \<Rightarrow> bool) list"

subsection \<open>The superclass: \<^verbatim>\<open>django.forms.MultipleChoiceField\<close>\<close>

text \<open>
  \<^verbatim>\<open>clean\<close> and \<^verbatim>\<open>valid_value\<close> call the methods they override. These are Django's
  (\<^verbatim>\<open>django/forms/fields.py\<close>), transcribed here:
  \<^verbatim>\<open>
  class Field:
      def run_validators(self, value):
          if value in self.empty_values: return
          errors = []
          for v in self.validators:
              try: v(value)
              except ValidationError as e: errors.after_super(e.error_list)
          if errors: raise ValidationError(errors)
      def clean(self, value):
          value = self.to_python(value)
          self.validate(value)
          self.run_validators(value)
          return value
  class ChoiceField(Field):
      def valid_value(self, value):
          text_value = str(value)
          for k, v in self.choices:
              if isinstance(v, (list, tuple)):
                  for k2, v2 in v:
                      if value == k2 or text_value == str(k2): return True
              else:
                  if value == k or text_value == str(k): return True
          return False
  class MultipleChoiceField(ChoiceField):
      def to_python(self, value):
          if not value: return []
          elif not isinstance(value, (list, tuple)):
              raise ValidationError(self.error_messages['invalid_list'], code='invalid_list')
          return [str(val) for val in value]
      def validate(self, value):
          if self.required and not value:
              raise ValidationError(self.error_messages['required'], code='required')
          for val in value:
              if not self.valid_value(val):
                  raise ValidationError(self.error_messages['invalid_choice'], ...)
  \<close>
  \<^verbatim>\<open>valid_value\<close> is called on the strings \<^verbatim>\<open>to_python\<close> made, as the annotation of
  the override says, so \<^verbatim>\<open>value == k\<close> compares a string with a key. \<^verbatim>\<open>self.valid_value\<close>
  is the method of the object's own class: \<^verbatim>\<open>validate\<close> takes it as an argument.
\<close>

fun group_valid_value :: "(pyval \<Rightarrow> string) \<Rightarrow> pyval list \<Rightarrow> string \<Rightarrow> error + bool" where
  "group_valid_value other [] v = Inr False"
| "group_valid_value other (c # cs) v =
     bind_err (unpack2 c) (\<lambda>(k2, v2).
       if PStr v = k2 \<or> v = py_str other k2 then Inr True
       else group_valid_value other cs v)"

fun choices_valid_value ::
  "(pyval \<Rightarrow> string) \<Rightarrow> (pyval \<times> pyval) list \<Rightarrow> string \<Rightarrow> error + bool" where
  "choices_valid_value other [] v = Inr False"
| "choices_valid_value other ((k, PList grp) # cs) v =
     bind_err (group_valid_value other grp v) (\<lambda>found.
       if found then Inr True else choices_valid_value other cs v)"
| "choices_valid_value other ((k, PTuple grp) # cs) v =
     bind_err (group_valid_value other grp v) (\<lambda>found.
       if found then Inr True else choices_valid_value other cs v)"
| "choices_valid_value other ((k, label) # cs) v =
     (if PStr v = k \<or> v = py_str other k then Inr True
      else choices_valid_value other cs v)"

definition ChoiceField_valid_value ::
  "(pyval \<Rightarrow> string) \<Rightarrow> comma_separated_field \<Rightarrow> string \<Rightarrow> error + bool" where
  "ChoiceField_valid_value other self v = choices_valid_value other (choices self) v"

definition MultipleChoiceField_to_python :: "(pyval \<Rightarrow> string) \<Rightarrow> pyval \<Rightarrow> error + string list" where
  "MultipleChoiceField_to_python other v =
     (if \<not> truthy v then Inr []
      else case v of
             PList xs \<Rightarrow> Inr (map (py_str other) xs)
           | PTuple xs \<Rightarrow> Inr (map (py_str other) xs)
           | _ \<Rightarrow> Inl (ValidationError ''invalid_list''))"

fun all_valid :: "(string \<Rightarrow> error + bool) \<Rightarrow> string list \<Rightarrow> error + unit" where
  "all_valid valid_value [] = Inr ()"
| "all_valid valid_value (v # vs) =
     bind_err (valid_value v) (\<lambda>ok.
       if \<not> ok then Inl (ValidationError ''invalid_choice'') else all_valid valid_value vs)"

definition MultipleChoiceField_validate ::
  "(string \<Rightarrow> error + bool) \<Rightarrow> comma_separated_field \<Rightarrow> string list \<Rightarrow> error + unit" where
  "MultipleChoiceField_validate valid_value self v =
     (if required self \<and> v = [] then Inl (ValidationError ''required'')
      else all_valid valid_value v)"

definition Field_run_validators :: "comma_separated_field \<Rightarrow> string list \<Rightarrow> error + unit" where
  "Field_run_validators self v =
     (if v = [] then Inr ()
      else if list_all (\<lambda>accepts. accepts v) (validators self) then Inr ()
      else Inl (ValidationError ''validators''))"

definition MultipleChoiceField_clean ::
  "(string \<Rightarrow> error + bool) \<Rightarrow> (pyval \<Rightarrow> string) \<Rightarrow> comma_separated_field \<Rightarrow> pyval
     \<Rightarrow> error + string list" where
  "MultipleChoiceField_clean valid_value other self v =
     bind_err (MultipleChoiceField_to_python other v) (\<lambda>v.
     bind_err (MultipleChoiceField_validate valid_value self v) (\<lambda>_.
     bind_err (Field_run_validators self v) (\<lambda>_.
       Inr v)))"

subsection \<open>The methods of the class\<close>

text \<open>Lines 331-332: the comprehension runs over the tokens in order, and each test reads
  the list as the appends before it left it.\<close>

fun append_not_valid ::
  "bool \<Rightarrow> string list \<Rightarrow> (pyval \<times> pyval) list \<Rightarrow> (pyval \<times> pyval) list" where
  "append_not_valid validate [] cs = cs"
| "append_not_valid validate (v # vs) cs =
     append_not_valid validate vs
       (if validate \<and> v \<noteq> [] \<and> (PStr v, PStr v) \<notin> set cs
        then cs @ [(PStr v, PStr (v @ '' (Not valid)''))] else cs)"

text \<open>\<^verbatim>\<open>prepare_value\<close> returns a value and changes \<^verbatim>\<open>self.choices\<close>: the field after
  the call is returned with the value.\<close>

definition prepare_value :: "comma_separated_field \<Rightarrow> pyval \<Rightarrow> comma_separated_field \<times> pyval" where
  "prepare_value self v =
     (case v of
        PStr s \<Rightarrow>
          (let value_list = split CHR '','' s
           in (self\<lparr>choices := append_not_valid (validate_choices self) value_list (choices self)\<rparr>,
               PList (map PStr value_list)))
      | _ \<Rightarrow> (self, v))"

definition valid_value ::
  "(pyval \<Rightarrow> string) \<Rightarrow> comma_separated_field \<Rightarrow> string \<Rightarrow> error + bool" where
  "valid_value other self v =
     (if validate_choices self then ChoiceField_valid_value other self v else Inr True)"

definition clean :: "(pyval \<Rightarrow> string) \<Rightarrow> comma_separated_field \<Rightarrow> pyval \<Rightarrow> error + pyval" where
  "clean other self v =
     bind_err (MultipleChoiceField_clean (valid_value other self) other self v) (\<lambda>v.
       Inr (PStr (join '','' v)))"


section \<open>Notions the properties are stated with\<close>

text \<open>The keys a class's own \<^verbatim>\<open>as_dict\<close> writes that its base class has not written,
  and the length of the chain of base classes.\<close>

fun own_keys :: "adapter \<Rightarrow> string list" where
  "own_keys RemoteField = base_keys"
| "own_keys RemoteCharField = [''max_length'', ''min_length'']"
| "own_keys RemoteIntegerField = [''max_value'', ''min_value'']"
| "own_keys RemoteDecimalField = [''max_digits'', ''decimal_places'']"
| "own_keys RemoteTimeField = [''input_formats'']"
| "own_keys RemoteFileField = [''max_length'']"
| "own_keys RemoteChoiceField = [''choices'']"
| "own_keys RemoteTypedChoiceField = [''coerce'', ''empty_value'']"
| "own_keys RemoteTypedMultipleChoiceField = [''coerce'', ''empty_value'']"
| "own_keys RemoteComboField = [''fields'']"
| "own_keys RemoteMultiValueField = [''fields'']"
| "own_keys RemoteFilePathField = [''path'', ''match'', ''recursive'']"
| "own_keys RemoteSplitDateTimeField = [''input_date_formats'', ''input_time_formats'']"
| "own_keys c = []"

definition depth :: "adapter \<Rightarrow> nat" where
  "depth c = (case parent c of None \<Rightarrow> 0 | Some p \<Rightarrow>
               (case parent p of None \<Rightarrow> 1 | Some q \<Rightarrow>
                 (case parent q of None \<Rightarrow> 2 | Some r \<Rightarrow> 3)))"

text \<open>An object exposes a primary key when it is an instance with an attribute
  \<^verbatim>\<open>pk\<close>; the serialized form of a value is its primary key when it exposes one, and
  the value itself otherwise.\<close>

definition primary_key :: "pyval \<Rightarrow> pyval option" where
  "primary_key x = (case x of PObj c attrs \<Rightarrow> map_of attrs ''pk'' | _ \<Rightarrow> None)"

definition primary_key_or_self :: "pyval \<Rightarrow> pyval" where
  "primary_key_or_self x = (case primary_key x of Some pk \<Rightarrow> pk | None \<Rightarrow> x)"

text \<open>The entry the loop of \<^verbatim>\<open>RemoteCommaSeparatedField.as_dict\<close> synthesizes for a
  token.\<close>

definition initial_option :: "pyval \<Rightarrow> string \<Rightarrow> pyval" where
  "initial_option vc t =
     choice_entry t (PStr (if truthy vc then t @ '' (Not valid)'' else t))"

section \<open>Example objects\<close>

text \<open>A widget adapter, an environment with three adapter classes and Django's first
  default formats, and a stand-in for \<^verbatim>\<open>strftime\<close> that shows the format it was
  given.\<close>

definition example_widget_class :: widget_class where
  "example_widget_class widget name =
     Inr (PDict [(''title'', PStr (class_name widget)), (''name'', name)])"

definition example_strftime :: "pyval \<Rightarrow> string \<Rightarrow> string" where
  "example_strftime x fmt = ''strftime('' @ fmt @ '')''"

definition example_env :: env where
  "example_env =
     \<lparr>widgets = map_of [(''RemoteTextInput'', example_widget_class),
                        (''RemoteCheckboxInput'', example_widget_class),
                        (''RemoteSelect'', example_widget_class),
                        (''DefaultRemoteInput'', example_widget_class)],
      DATE_INPUT_FORMATS = PList [PStr ''%Y-%m-%d'', PStr ''%m/%d/%Y''],
      TIME_INPUT_FORMATS = PList [PStr ''%H:%M:%S'', PStr ''%H:%M''],
      DATETIME_INPUT_FORMATS = PList [PStr ''%Y-%m-%d %H:%M:%S'', PStr ''%Y-%m-%d %H:%M''],
      strftime = example_strftime,
      str_other = (\<lambda>x. ''object'')\<rparr>"

text \<open>A form field of class \<open>cls\<close> with the attributes every Django field has, the
  given initial value and widget class, and the attributes of its own class.\<close>

definition field_object :: "string \<Rightarrow> pyval \<Rightarrow> string \<Rightarrow> (string \<times> pyval) list \<Rightarrow> pyval" where
  "field_object cls initial widget_cls extra =
     PObj cls ([(''required'', PBool True), (''label'', PStr ''Label''), (''initial'', initial),
                (''help_text'', PStr []), (''disabled'', PBool False),
                (''error_messages'', PDict [(''required'', PStr ''This field is required.'')]),
                (''widget'', PObj widget_cls [])] @ extra)"

definition decimal_adapter :: remote_field where
  "decimal_adapter =
     \<lparr>field_name = PStr ''price'',
      field = field_object ''DecimalField'' (PInt 5) ''TextInput''
                [(''max_value'', PInt 100), (''min_value'', PInt 0),
                 (''max_digits'', PInt 5), (''decimal_places'', PInt 2)],
      form_initial_data = PNone\<rparr>"

definition colour_adapter :: remote_field where
  "colour_adapter =
     \<lparr>field_name = PStr ''colour'',
      field = field_object ''CharField'' PNone ''ColourPicker'' [],
      form_initial_data = PStr ''red''\<rparr>"

definition boolean_adapter :: remote_field where
  "boolean_adapter =
     \<lparr>field_name = PStr ''subscribe'',
      field = field_object ''BooleanField'' (PBool True) ''CheckboxInput'' [],
      form_initial_data = PBool False\<rparr>"

definition datetime_adapter :: remote_field where
  "datetime_adapter =
     \<lparr>field_name = PStr ''starts'',
      field = field_object ''DateTimeField'' (PDateTime 2024 5 17 9 30 0) ''TextInput''
                [(''input_formats'', PList [])],
      form_initial_data = PNone\<rparr>"

definition comma_adapter :: remote_field where
  "comma_adapter =
     \<lparr>field_name = PStr ''tags'',
      field = field_object ''CommaSeparatedField'' (PStr ''a'') ''Select''
                [(''choices'', PList [PTuple [PStr ''a'', PStr ''a'']]),
                 (''validate_choices'', PBool True)],
      form_initial_data = PNone\<rparr>"

definition author :: pyval where
  "author = PObj ''Author'' [(''name'', PStr ''Ada''), (''pk'', PInt 7)]"

definition author_choices :: pyval where
  "author_choices = PList [PTuple [PInt 7, PStr ''Ada''], PTuple [PInt 3, PStr ''Bob'']]"

definition author_adapter :: remote_field where
  "author_adapter =
     \<lparr>field_name = PStr ''author'',
      field = field_object ''ModelChoiceField'' PNone ''Select'' [(''choices'', author_choices)],
      form_initial_data = author\<rparr>"

definition authors_adapter :: remote_field where
  "authors_adapter =
     \<lparr>field_name = PStr ''authors'',
      field = field_object ''ModelMultipleChoiceField'' PNone ''Select''
                [(''choices'', author_choices)],
      form_initial_data = PList [author, PInt 3]\<rparr>"

text \<open>Two comma-separated form fields: one that validates its choices, with a declared
  integer key and a validator, and one that does not.\<close>

definition abc_field :: comma_separated_field where
  "abc_field =
     \<lparr>choices = [(PStr ''a'', PStr ''A''), (PStr ''b'', PStr ''b''), (PInt 3, PStr ''three''),
                 (PStr ''c'', PStr ''C'')],
      validate_choices = True, required = True, validators = [\<lambda>v. length v \<le> 3]\<rparr>"

definition open_field :: comma_separated_field where
  "open_field =
     \<lparr>choices = [(PStr ''a'', PStr ''A'')],
      validate_choices = False, required = False, validators = []\<rparr>"

section \<open>Facts about the operations\<close>

lemma bind_err_InrE:
  assumes "bind_err m f = Inr y"
  obtains x where "m = Inr x" and "f x = Inr y"
  using assms by (cases m) (auto simp: bind_err_def)

lemma after_super_InrE:
  assumes "after_super r f = (lg, Inr d)"
  obtains d0 where "r = (lg, Inr d0)" and "f d0 = Inr d"
  using assms by (auto simp: after_super_def split: prod.splits sum.splits)

lemma keys_update [simp]: "keys (AList.update k v d) = insert k (keys d)"
  by (simp add: keys_def dom_update)

lemma dict_get_key: "dict_get d k = Inr v \<Longrightarrow> k \<in> keys d"
  by (auto simp: dict_get_def keys_def split: option.splits dest: map_of_SomeD intro: rev_image_eqI)

lemma dict_get_update_other: "k \<noteq> k' \<Longrightarrow> dict_get (AList.update k v d) k' = dict_get d k'"
  by (simp add: dict_get_def update_conv')

lemma dict_get_update_same: "dict_get (AList.update k v d) k = Inr v"
  by (simp add: dict_get_def update_conv')

lemma split_not_Nil: "split sep s \<noteq> []"
  by (induction s) auto

text \<open>The tokens of \<^verbatim>\<open>a + sep + b\<close> are those of \<^verbatim>\<open>a\<close> followed by those of \<^verbatim>\<open>b\<close>:
  a leading, a trailing and a doubled separator each give an empty token.\<close>

lemma split_append: "split sep (a @ sep # b) = split sep a @ split sep b"
proof (induction a)
  case Nil
  show ?case by simp
next
  case (Cons x a)
  then show ?case using split_not_Nil [of sep a] by (cases "split sep a") auto
qed

lemma split_leading: "split sep (sep # s) = [] # split sep s"
  by simp

lemma split_trailing: "split sep (s @ [sep]) = split sep s @ [[]]"
  using split_append [of sep s "[]"] by simp

lemma split_doubled: "split sep (a @ sep # sep # b) = split sep a @ [] # split sep b"
  using split_append [of sep a "sep # b"] by simp

lemma join_split: "join [sep] (split sep s) = s"
proof (induction s)
  case Nil
  show ?case by simp
next
  case (Cons c s)
  obtain t ts where ts: "split sep s = t # ts"
    using split_not_Nil [of sep s] by (cases "split sep s") auto
  show ?case
  proof (cases "c = sep")
    case True
    with Cons ts show ?thesis by simp
  next
    case False
    with Cons ts show ?thesis by (cases ts) auto
  qed
qed

section \<open>The keys of an adapter's output\<close>

lemma field_attributes_Inr:
  assumes "field_attributes self = Inr d"
  shows "\<exists>a b c e f g. form_or_field_initial self = Inr c \<and>
    d = [(''title'', PStr (class_name (field self))), (''required'', a), (''label'', b),
          (''initial'', c), (''help_text'', e), (''disabled'', f), (''error_messages'', g)]"
  using assms unfolding field_attributes_def by (fastforce elim!: bind_err_InrE)

lemma RemoteField_Inr:
  assumes "RemoteField_as_dict env self = (lg, Inr d)"
  shows "\<exists>a b c e f g wd. form_or_field_initial self = Inr c \<and>
    d = [(''title'', PStr (class_name (field self))), (''required'', a), (''label'', b),
          (''initial'', c), (''help_text'', e), (''disabled'', f), (''error_messages'', g),
          (''widget'', wd)]"
proof (cases "field_attributes self")
  case (Inl e)
  with assms show ?thesis by (simp add: RemoteField_as_dict_def)
next
  case d0: (Inr d0)
  show ?thesis
  proof (cases "getattr (field self) ''widget''")
    case (Inl e)
    with assms d0 show ?thesis by (simp add: RemoteField_as_dict_def)
  next
    case (Inr widget)
    obtain lg' cls where "remote_widget_class env (''Remote'' @ class_name widget) = (lg', cls)"
      by (cases "remote_widget_class env (''Remote'' @ class_name widget)")
    with assms d0 Inr have
      "bind_err cls (\<lambda>cls. bind_err (cls widget (field_name self))
          (\<lambda>widget_dict. Inr (AList.update ''widget'' widget_dict d0))) = Inr d"
      by (simp add: RemoteField_as_dict_def)
    then obtain wd where d: "d = AList.update ''widget'' wd d0"
      by (elim bind_err_InrE) auto
    from field_attributes_Inr [OF d0] obtain a b c e f g where
      "form_or_field_initial self = Inr c"
      "d0 = [(''title'', PStr (class_name (field self))), (''required'', a), (''label'', b),
          (''initial'', c), (''help_text'', e), (''disabled'', f), (''error_messages'', g)]"
      by blast
    with d show ?thesis by simp
  qed
qed

lemma RemoteField_keys:
  assumes "RemoteField_as_dict env self = (lg, Inr d)"
  shows "keys d = set base_keys"
  using RemoteField_Inr [OF assms] by (auto simp: keys_def base_keys_def)

lemma RemoteField_initial:
  assumes "RemoteField_as_dict env self = (lg, Inr d)"
  shows "\<exists>c. form_or_field_initial self = Inr c \<and> dict_get d ''initial'' = Inr c"
  using RemoteField_Inr [OF assms] by (auto simp: dict_get_def)

text \<open>Each class against its base class: the base class returned on the same adapter,
  with the same log, and the class added its own keys to the keys of that result.\<close>

lemma RemoteCharField_super:
  assumes "RemoteCharField_as_dict env self = (lg, Inr d)"
  shows "\<exists>d0. RemoteField_as_dict env self = (lg, Inr d0) \<and>
           keys d = keys d0 \<union> set [''max_length'', ''min_length'']"
  using assms unfolding RemoteCharField_as_dict_def
  by (elim after_super_InrE bind_err_InrE) auto

lemma RemoteIntegerField_super:
  assumes "RemoteIntegerField_as_dict env self = (lg, Inr d)"
  shows "\<exists>d0. RemoteField_as_dict env self = (lg, Inr d0) \<and>
           keys d = keys d0 \<union> set [''max_value'', ''min_value'']"
  using assms unfolding RemoteIntegerField_as_dict_def
  by (elim after_super_InrE bind_err_InrE) auto

lemma RemoteDecimalField_super:
  assumes "RemoteDecimalField_as_dict env self = (lg, Inr d)"
  shows "\<exists>d0. RemoteIntegerField_as_dict env self = (lg, Inr d0) \<and>
           keys d = keys d0 \<union> set [''max_digits'', ''decimal_places'']"
  using assms unfolding RemoteDecimalField_as_dict_def
  by (elim after_super_InrE bind_err_InrE) auto

lemma RemoteFileField_super:
  assumes "RemoteFileField_as_dict env self = (lg, Inr d)"
  shows "\<exists>d0. RemoteField_as_dict env self = (lg, Inr d0) \<and>
           keys d = keys d0 \<union> set [''max_length'']"
  using assms unfolding RemoteFileField_as_dict_def
  by (elim after_super_InrE bind_err_InrE) auto

lemma RemoteComboField_super:
  assumes "RemoteComboField_as_dict env self = (lg, Inr d)"
  shows "\<exists>d0. RemoteField_as_dict env self = (lg, Inr d0) \<and>
           keys d = keys d0 \<union> set [''fields'']"
  using assms unfolding RemoteComboField_as_dict_def
  by (elim after_super_InrE bind_err_InrE) auto

lemma RemoteMultiValueField_super:
  assumes "RemoteMultiValueField_as_dict env self = (lg, Inr d)"
  shows "\<exists>d0. RemoteField_as_dict env self = (lg, Inr d0) \<and>
           keys d = keys d0 \<union> set [''fields'']"
  using assms unfolding RemoteMultiValueField_as_dict_def
  by (elim after_super_InrE bind_err_InrE) auto

lemma RemoteSplitDateTimeField_super:
  assumes "RemoteSplitDateTimeField_as_dict env self = (lg, Inr d)"
  shows "\<exists>d0. RemoteMultiValueField_as_dict env self = (lg, Inr d0) \<and>
           keys d = keys d0 \<union> set [''input_date_formats'', ''input_time_formats'']"
  using assms unfolding RemoteSplitDateTimeField_as_dict_def
  by (elim after_super_InrE bind_err_InrE) auto

lemma default_input_formats_keys:
  "''input_formats'' \<in> keys d \<Longrightarrow> keys (default_input_formats env i d) = keys d"
  by (auto simp: default_input_formats_def)

lemma update_present: "k \<in> keys d \<Longrightarrow> keys (AList.update k v d) = keys d"
  by auto

lemma format_initial_keys:
  assumes "format_initial env d = Inr d'" and "''input_formats'' \<in> keys d"
  shows "keys d' = keys d"
proof -
  from assms(1) obtain initial where i: "dict_get d ''initial'' = Inr initial"
    unfolding format_initial_def by (elim bind_err_InrE)
  then have ik: "''initial'' \<in> keys d" by (rule dict_get_key)
  show ?thesis
  proof (cases "isinstance_datetime initial \<or> isinstance_time initial \<or> isinstance_date initial")
    case False
    with assms(1) i show ?thesis by (simp add: format_initial_def bind_err_def)
  next
    case True
    show ?thesis
      using assms True ik unfolding format_initial_def Let_def
      by (auto simp only: bind_err_def i update_present default_input_formats_keys sum.case if_True
               split: sum.splits if_splits)
  qed
qed

lemma RemoteTimeField_super:
  assumes "RemoteTimeField_as_dict env self = (lg, Inr d)"
  shows "\<exists>d0. RemoteField_as_dict env self = (lg, Inr d0) \<and>
           keys d = keys d0 \<union> set [''input_formats'']"
proof -
  from assms obtain d0 fmts initial where d0: "RemoteField_as_dict env self = (lg, Inr d0)"
    and i: "dict_get (AList.update ''input_formats'' fmts d0) ''initial'' = Inr initial"
    and r: "(if truthy initial then
                (if callable initial then
                   bind_err (call initial) (\<lambda>v.
                     format_initial env
                       (AList.update ''initial'' v (AList.update ''input_formats'' fmts d0)))
                 else format_initial env (AList.update ''input_formats'' fmts d0))
              else Inr (AList.update ''input_formats'' fmts d0)) = Inr d"
    unfolding RemoteTimeField_as_dict_def Let_def
    by (elim after_super_InrE bind_err_InrE)
  let ?d1 = "AList.update ''input_formats'' fmts d0"
  have ik: "''initial'' \<in> keys ?d1" using i by (rule dict_get_key)
  have "keys d = keys ?d1"
  proof (cases "truthy initial")
    case False
    with r show ?thesis by simp
  next
    case True
    show ?thesis
    proof (cases "callable initial")
      case False
      with r True have "format_initial env ?d1 = Inr d" by simp
      then show ?thesis by (rule format_initial_keys) simp
    next
      case c: True
      with r True have
        "bind_err (call initial) (\<lambda>v. format_initial env (AList.update ''initial'' v ?d1)) = Inr d"
        by simp
      then obtain v where "format_initial env (AList.update ''initial'' v ?d1) = Inr d"
        by (elim bind_err_InrE)
      then have "keys d = keys (AList.update ''initial'' v ?d1)"
        by (rule format_initial_keys) simp
      with ik show ?thesis by (simp only: update_present)
    qed
  qed
  with d0 show ?thesis by simp
qed

lemma RemoteChoiceField_super:
  assumes "RemoteChoiceField_as_dict env self = (lg, Inr d)"
  shows "\<exists>d0. RemoteField_as_dict env self = (lg, Inr d0) \<and>
           keys d = keys d0 \<union> set [''choices'']"
  using assms unfolding RemoteChoiceField_as_dict_def
  by (elim after_super_InrE bind_err_InrE) auto

lemma RemoteModelChoiceField_super:
  assumes "RemoteModelChoiceField_as_dict env self = (lg, Inr d)"
  shows "\<exists>d0. RemoteChoiceField_as_dict env self = (lg, Inr d0) \<and>
           keys d = keys d0 \<union> set []"
  using assms unfolding RemoteModelChoiceField_as_dict_def
  by (elim after_super_InrE bind_err_InrE) (auto dest: dict_get_key)

lemma RemoteTypedChoiceField_super:
  assumes "RemoteTypedChoiceField_as_dict env self = (lg, Inr d)"
  shows "\<exists>d0. RemoteChoiceField_as_dict env self = (lg, Inr d0) \<and>
           keys d = keys d0 \<union> set [''coerce'', ''empty_value'']"
  using assms unfolding RemoteTypedChoiceField_as_dict_def
  by (elim after_super_InrE bind_err_InrE) auto

lemma RemoteTypedMultipleChoiceField_super:
  assumes "RemoteTypedMultipleChoiceField_as_dict env self = (lg, Inr d)"
  shows "\<exists>d0. RemoteMultipleChoiceField_as_dict env self = (lg, Inr d0) \<and>
           keys d = keys d0 \<union> set [''coerce'', ''empty_value'']"
  using assms unfolding RemoteTypedMultipleChoiceField_as_dict_def
  by (elim after_super_InrE bind_err_InrE) auto

lemma RemoteFilePathField_super:
  assumes "RemoteFilePathField_as_dict env self = (lg, Inr d)"
  shows "\<exists>d0. RemoteChoiceField_as_dict env self = (lg, Inr d0) \<and>
           keys d = keys d0 \<union> set [''path'', ''match'', ''recursive'']"
  using assms unfolding RemoteFilePathField_as_dict_def
  by (elim after_super_InrE bind_err_InrE) auto

lemma RemoteCommaSeparatedField_super:
  assumes "RemoteCommaSeparatedField_as_dict env self = (lg, Inr d)"
  shows "\<exists>d0. RemoteMultipleChoiceField_as_dict env self = (lg, Inr d0) \<and>
           keys d = keys d0 \<union> set []"
proof -
  from assms obtain d0 initial where
    d0: "RemoteMultipleChoiceField_as_dict env self = (lg, Inr d0)"
    and r: "(if truthy initial then
           bind_err (split_method initial) (\<lambda>initial_list.
           bind_err (dict_get d0 ''choices'') (\<lambda>choices.
           bind_err (list_append_all choices (append_initial_options (field self) initial_list))
             (\<lambda>choices. Inr (AList.update ''choices'' choices d0))))
         else Inr d0) = Inr d"
    unfolding RemoteCommaSeparatedField_as_dict_def
    by (elim after_super_InrE bind_err_InrE)
  have "keys d = keys d0"
  proof (cases "truthy initial")
    case False
    with r show ?thesis by simp
  next
    case True
    with r have "bind_err (split_method initial) (\<lambda>initial_list.
           bind_err (dict_get d0 ''choices'') (\<lambda>choices.
           bind_err (list_append_all choices (append_initial_options (field self) initial_list))
             (\<lambda>choices. Inr (AList.update ''choices'' choices d0)))) = Inr d" by simp
    then obtain choices choices' where "dict_get d0 ''choices'' = Inr choices"
      "d = AList.update ''choices'' choices' d0"
      by (elim bind_err_InrE) auto
    then show ?thesis by (auto dest: dict_get_key)
  qed
  with d0 show ?thesis by simp
qed

lemma RemoteModelMultipleChoiceField_super:
  assumes "RemoteModelMultipleChoiceField_as_dict env self = (lg, Inr d)"
  shows "\<exists>d0. RemoteMultipleChoiceField_as_dict env self = (lg, Inr d0) \<and>
           keys d = keys d0 \<union> set []"
  using assms unfolding RemoteModelMultipleChoiceField_as_dict_def
  by (elim after_super_InrE bind_err_InrE)
     (auto split: pyval.splits dest: dict_get_key)


text \<open>The same for every class, through the dispatch.\<close>

lemma as_dict_super:
  assumes "as_dict env c self = (lg, Inr d)" and "parent c = Some p"
  shows "\<exists>d0. as_dict env p self = (lg, Inr d0) \<and> keys d = keys d0 \<union> set (own_keys c)"
proof (cases c)
  case RemoteField
  with assms show ?thesis by simp
next
  case RemoteCharField
  with assms RemoteCharField_super [of env self lg d] show ?thesis by simp
next
  case RemoteIntegerField
  with assms RemoteIntegerField_super [of env self lg d] show ?thesis by simp
next
  case RemoteFloatField
  with assms show ?thesis by (auto simp: RemoteFloatField_as_dict_def)
next
  case RemoteDecimalField
  with assms RemoteDecimalField_super [of env self lg d] show ?thesis by simp
next
  case RemoteTimeField
  with assms RemoteTimeField_super [of env self lg d] show ?thesis by simp
next
  case RemoteDateField
  with assms show ?thesis by (auto simp: RemoteDateField_as_dict_def)
next
  case RemoteDateTimeField
  with assms show ?thesis by (auto simp: RemoteDateTimeField_as_dict_def)
next
  case RemoteRegexField
  with assms show ?thesis by (auto simp: RemoteRegexField_as_dict_def)
next
  case RemoteEmailField
  with assms show ?thesis by (auto simp: RemoteEmailField_as_dict_def)
next
  case RemoteFileField
  with assms RemoteFileField_super [of env self lg d] show ?thesis by simp
next
  case RemoteImageField
  with assms show ?thesis by (auto simp: RemoteImageField_as_dict_def)
next
  case RemoteURLField
  with assms show ?thesis by (auto simp: RemoteURLField_as_dict_def)
next
  case RemoteBooleanField
  with assms show ?thesis by (auto simp: RemoteBooleanField_as_dict_def)
next
  case RemoteNullBooleanField
  with assms show ?thesis by (auto simp: RemoteNullBooleanField_as_dict_def)
next
  case RemoteChoiceField
  with assms RemoteChoiceField_super [of env self lg d] show ?thesis by simp
next
  case RemoteModelChoiceField
  with assms RemoteModelChoiceField_super [of env self lg d] show ?thesis by simp
next
  case RemoteTypedChoiceField
  with assms RemoteTypedChoiceField_super [of env self lg d] show ?thesis by simp
next
  case RemoteMultipleChoiceField
  with assms show ?thesis by (auto simp: RemoteMultipleChoiceField_as_dict_def)
next
  case RemoteCommaSeparatedField
  with assms RemoteCommaSeparatedField_super [of env self lg d] show ?thesis by simp
next
  case RemoteModelMultipleChoiceField
  with assms RemoteModelMultipleChoiceField_super [of env self lg d] show ?thesis by simp
next
  case RemoteTypedMultipleChoiceField
  with assms RemoteTypedMultipleChoiceField_super [of env self lg d] show ?thesis by simp
next
  case RemoteComboField
  with assms RemoteComboField_super [of env self lg d] show ?thesis by simp
next
  case RemoteMultiValueField
  with assms RemoteMultiValueField_super [of env self lg d] show ?thesis by simp
next
  case RemoteFilePathField
  with assms RemoteFilePathField_super [of env self lg d] show ?thesis by simp
next
  case RemoteSplitDateTimeField
  with assms RemoteSplitDateTimeField_super [of env self lg d] show ?thesis by simp
next
  case RemoteIPAddressField
  with assms show ?thesis by (auto simp: RemoteIPAddressField_as_dict_def)
next
  case RemoteGenericIPAddressField
  with assms show ?thesis by (auto simp: RemoteGenericIPAddressField_as_dict_def)
next
  case RemoteSlugField
  with assms show ?thesis by (auto simp: RemoteSlugField_as_dict_def)
qed

lemma parent_depth: "parent c = Some p \<Longrightarrow> depth p < depth c"
  by (cases c) (simp_all add: depth_def)

lemma parent_None: "parent c = None \<Longrightarrow> c = RemoteField"
  by (cases c) simp_all

lemma extension_keys_parent:
  "parent c = Some p \<Longrightarrow> extension_keys c = extension_keys p @ own_keys c"
  by (cases c) auto

lemma as_dict_keys:
  "as_dict env c self = (lg, Inr d) \<Longrightarrow> keys d = set base_keys \<union> set (extension_keys c)"
proof (induction "depth c" arbitrary: c d rule: less_induct)
  case less
  show ?case
  proof (cases "parent c")
    case None
    then have "c = RemoteField" by (rule parent_None)
    with less.prems show ?thesis by (simp add: RemoteField_keys)
  next
    case (Some p)
    from as_dict_super [OF less.prems Some] obtain d0 where
      d0: "as_dict env p self = (lg, Inr d0)" and k: "keys d = keys d0 \<union> set (own_keys c)"
      by blast
    from Some have "depth p < depth c" by (rule parent_depth)
    then have "keys d0 = set base_keys \<union> set (extension_keys p)"
      using d0 by (rule less.hyps)
    with k show ?thesis
      by (simp only: extension_keys_parent [OF Some] set_append Un_assoc)
  qed
qed

text \<open>
  C1. Whenever an adapter of any class returns a dictionary, its keys are the eight base
  keys together with the extension keys of the adapter's category, none missing; and the
  base class of the adapter, run on the same field, returns a dictionary whose keys are
  all among them: along the chain of base classes keys are added, never removed.
\<close>

theorem as_dict_keys_extend_parent:
  assumes "as_dict env c self = (lg, Inr d)"
  shows "keys d = set base_keys \<union> set (extension_keys c) \<and>
         (\<forall>p. parent c = Some p \<longrightarrow>
            (\<exists>d'. as_dict env p self = (lg, Inr d') \<and> keys d' \<subseteq> keys d))"
proof (intro conjI allI impI)
  show "keys d = set base_keys \<union> set (extension_keys c)"
    using assms by (rule as_dict_keys)
next
  fix p assume "parent c = Some p"
  from as_dict_super [OF assms this]
  show "\<exists>d'. as_dict env p self = (lg, Inr d') \<and> keys d' \<subseteq> keys d"
    by blast
qed

theorem as_dict_keys_extend_parent_witness:
  "as_dict example_env RemoteDecimalField decimal_adapter =
     ([], Inr [(''title'', PStr ''DecimalField''), (''required'', PBool True),
               (''label'', PStr ''Label''), (''initial'', PInt 5),
               (''help_text'', PStr []), (''disabled'', PBool False),
               (''error_messages'', PDict [(''required'', PStr ''This field is required.'')]),
               (''widget'', PDict [(''title'', PStr ''TextInput''), (''name'', PStr ''price'')]),
               (''max_value'', PInt 100), (''min_value'', PInt 0),
               (''max_digits'', PInt 5), (''decimal_places'', PInt 2)]) \<and>
   (\<exists>d. snd (as_dict example_env RemoteDecimalField decimal_adapter) = Inr d \<and>
        keys d = set base_keys \<union> set (extension_keys RemoteDecimalField) \<and>
        (\<exists>d'. as_dict example_env RemoteIntegerField decimal_adapter = ([], Inr d') \<and>
              keys d' \<subseteq> keys d))"
proof -
  have run: "as_dict example_env RemoteDecimalField decimal_adapter =
     ([], Inr [(''title'', PStr ''DecimalField''), (''required'', PBool True),
               (''label'', PStr ''Label''), (''initial'', PInt 5),
               (''help_text'', PStr []), (''disabled'', PBool False),
               (''error_messages'', PDict [(''required'', PStr ''This field is required.'')]),
               (''widget'', PDict [(''title'', PStr ''TextInput''), (''name'', PStr ''price'')]),
               (''max_value'', PInt 100), (''min_value'', PInt 0),
               (''max_digits'', PInt 5), (''decimal_places'', PInt 2)])"
    (is "_ = ([], Inr ?d)")
    by code_simp
  from as_dict_keys_extend_parent [OF run]
  have k: "keys ?d = set base_keys \<union> set (extension_keys RemoteDecimalField)"
    and "\<forall>p. parent RemoteDecimalField = Some p \<longrightarrow>
           (\<exists>d'. as_dict example_env p decimal_adapter = ([], Inr d') \<and> keys d' \<subseteq> keys ?d)"
    by blast+
  then have p: "\<exists>d'. as_dict example_env RemoteIntegerField decimal_adapter = ([], Inr d') \<and>
                     keys d' \<subseteq> keys ?d"
    by simp
  show ?thesis
  proof (intro conjI)
    show "as_dict example_env RemoteDecimalField decimal_adapter = ([], Inr ?d)"
      by (rule run)
    show "\<exists>d. snd (as_dict example_env RemoteDecimalField decimal_adapter) = Inr d \<and>
        keys d = set base_keys \<union> set (extension_keys RemoteDecimalField) \<and>
        (\<exists>d'. as_dict example_env RemoteIntegerField decimal_adapter = ([], Inr d') \<and>
              keys d' \<subseteq> keys d)"
      using k p by (simp only: run snd_conv) blast
  qed
qed

text \<open>
  C2. When the widgets module has no adapter class named after the field's widget class,
  and it defines the default adapter class, the lookup returns the default class and
  raises nothing; exactly one warning is logged, holding the name that was tried and the
  text of the exception that was caught; and the field is serialized with the dictionary
  the default adapter gives for its widget.
\<close>

theorem widget_lookup_falls_back:
  assumes missing: "widgets env (''Remote'' @ class_name widget) = None"
    and dflt: "widgets env DEFAULT_REMOTE_WIDGET_CLASS_NAME = Some default_adapter"
    and attrs: "field_attributes self = Inr field_dict"
    and w: "getattr (field self) ''widget'' = Inr widget"
    and wd: "default_adapter widget (field_name self) = Inr widget_dict"
  shows "remote_widget_class env (''Remote'' @ class_name widget) =
           ([(''Remote'' @ class_name widget,
              ''module '' @ quoted ''django_remote_forms.widgets'' @ '' has no attribute '' @
                quoted (''Remote'' @ class_name widget))],
            Inr default_adapter) \<and>
         RemoteField_as_dict env self =
           ([(''Remote'' @ class_name widget,
              ''module '' @ quoted ''django_remote_forms.widgets'' @ '' has no attribute '' @
                quoted (''Remote'' @ class_name widget))],
            Inr (AList.update ''widget'' widget_dict field_dict))"
proof -
  have "remote_widget_class env (''Remote'' @ class_name widget) =
           ([(''Remote'' @ class_name widget,
              ''module '' @ quoted ''django_remote_forms.widgets'' @ '' has no attribute '' @
                quoted (''Remote'' @ class_name widget))],
            Inr default_adapter)"
    using missing dflt by (simp add: remote_widget_class_def widgets_getattr_def)
  then show ?thesis
    using attrs w wd by (simp add: RemoteField_as_dict_def bind_err_def)
qed

theorem widget_lookup_falls_back_witness:
  "widgets example_env (''Remote'' @ class_name (PObj ''ColourPicker'' [])) = None \<and>
   widgets example_env DEFAULT_REMOTE_WIDGET_CLASS_NAME = Some example_widget_class \<and>
   getattr (field colour_adapter) ''widget'' = Inr (PObj ''ColourPicker'' []) \<and>
   RemoteField_as_dict example_env colour_adapter =
     ([(''RemoteColourPicker'',
        ''module '' @ quoted ''django_remote_forms.widgets'' @ '' has no attribute '' @
          quoted ''RemoteColourPicker'')],
      Inr [(''title'', PStr ''CharField''), (''required'', PBool True),
           (''label'', PStr ''Label''), (''initial'', PStr ''red''),
           (''help_text'', PStr []), (''disabled'', PBool False),
           (''error_messages'', PDict [(''required'', PStr ''This field is required.'')]),
           (''widget'', PDict [(''title'', PStr ''ColourPicker''),
                               (''name'', PStr ''colour'')])])"
proof -
  have missing: "widgets example_env (''Remote'' @ class_name (PObj ''ColourPicker'' [])) = None"
    by (simp add: example_env_def)
  have dflt: "widgets example_env DEFAULT_REMOTE_WIDGET_CLASS_NAME = Some example_widget_class"
    by (simp add: example_env_def DEFAULT_REMOTE_WIDGET_CLASS_NAME_def)
  have attrs: "field_attributes colour_adapter =
      Inr [(''title'', PStr ''CharField''), (''required'', PBool True),
           (''label'', PStr ''Label''), (''initial'', PStr ''red''),
           (''help_text'', PStr []), (''disabled'', PBool False),
           (''error_messages'', PDict [(''required'', PStr ''This field is required.'')])]"
    by (simp add: field_attributes_def form_or_field_initial_def colour_adapter_def
        field_object_def bind_err_def)
  have w: "getattr (field colour_adapter) ''widget'' = Inr (PObj ''ColourPicker'' [])"
    by (simp add: colour_adapter_def field_object_def)
  have wd: "example_widget_class (PObj ''ColourPicker'' []) (field_name colour_adapter) =
      Inr (PDict [(''title'', PStr ''ColourPicker''), (''name'', PStr ''colour'')])"
    by (simp add: example_widget_class_def colour_adapter_def)
  from widget_lookup_falls_back [OF missing dflt attrs w wd] missing dflt w
  show ?thesis by simp
qed

section \<open>Times and dates without input formats\<close>

text \<open>The default list by kind of value, and the output of the adapter for a field without
  input formats whose initial value is a date, a time or a datetime.\<close>

lemma default_input_formats_date_only:
  "default_input_formats env (PDate y m d) field_dict =
     AList.update ''input_formats'' (DATE_INPUT_FORMATS env) field_dict"
  by (simp add: default_input_formats_def)

lemma default_input_formats_time_only:
  "default_input_formats env (PTime h m s) field_dict =
     AList.update ''input_formats'' (TIME_INPUT_FORMATS env) field_dict"
  by (simp add: default_input_formats_def)

lemma default_input_formats_combined:
  "default_input_formats env (PDateTime y mo d h mi s) field_dict =
     AList.update ''input_formats'' (DATE_INPUT_FORMATS env) field_dict"
  by (simp add: default_input_formats_def)

lemma RemoteTimeField_empty_input_formats:
  assumes d0: "RemoteField_as_dict env self = (lg, Inr d0)"
    and fmts: "getattr (field self) ''input_formats'' = Inr (PList [])"
    and init: "dict_get d0 ''initial'' = Inr x"
    and kind: "isinstance_date x \<or> isinstance_time x"
    and first: "py_index0 (if isinstance_date x then DATE_INPUT_FORMATS env
                            else TIME_INPUT_FORMATS env) = Inr (PStr fmt)"
  shows "RemoteTimeField_as_dict env self =
           (lg, Inr (AList.update ''initial'' (PStr (strftime env x fmt))
                      (AList.update ''input_formats''
                         (if isinstance_date x then DATE_INPUT_FORMATS env
                          else TIME_INPUT_FORMATS env) d0)))"
proof -
  let ?d1 = "AList.update ''input_formats'' (PList []) d0"
  have i1: "dict_get ?d1 ''initial'' = Inr x"
    using init by (simp add: dict_get_update_other)
  have t: "truthy x" "\<not> callable x"
    using kind by (cases x; simp)+
  have k: "isinstance_datetime x \<or> isinstance_time x \<or> isinstance_date x"
    using kind by blast
  have f: "format_initial env ?d1 =
      Inr (AList.update ''initial'' (PStr (strftime env x fmt))
            (AList.update ''input_formats''
               (if isinstance_date x then DATE_INPUT_FORMATS env else TIME_INPUT_FORMATS env) d0))"
  proof (cases "isinstance_date x")
    case True
    with first show ?thesis
      by (simp add: format_initial_def i1 k bind_err_def dict_get_update_same
          default_input_formats_def py_strftime_def)
  next
    case False
    with kind have "isinstance_time x" by simp
    with False first show ?thesis
      by (simp add: format_initial_def i1 bind_err_def dict_get_update_same
          default_input_formats_def py_strftime_def)
  qed
  show ?thesis
    by (simp add: RemoteTimeField_as_dict_def d0 after_super_def fmts bind_err_def i1 t f)
qed

text \<open>
  C3. The date-only and the time-only case behave as stated. A combined datetime value does
  not: it is an instance of \<^verbatim>\<open>datetime.date\<close> as well, the first test of lines 112-117
  takes it, and the branch for \<^verbatim>\<open>datetime.datetime\<close> is never reached. A datetime field
  without input formats, with a datetime as initial value, gets the date formats and is
  rendered with the first of them.
\<close>

theorem datetime_initial_takes_date_formats:
  "RemoteDateTimeField_as_dict example_env datetime_adapter =
     ([], Inr [(''title'', PStr ''DateTimeField''), (''required'', PBool True),
               (''label'', PStr ''Label''),
               (''initial'', PStr (example_strftime (PDateTime 2024 5 17 9 30 0) ''%Y-%m-%d'')),
               (''help_text'', PStr []), (''disabled'', PBool False),
               (''error_messages'', PDict [(''required'', PStr ''This field is required.'')]),
               (''widget'', PDict [(''title'', PStr ''TextInput''), (''name'', PStr ''starts'')]),
               (''input_formats'', DATE_INPUT_FORMATS example_env)])"
  by code_simp

section \<open>Model-backed choice fields\<close>

lemma getattr_default_pk: "getattr_default x ''pk'' x = primary_key_or_self x"
  by (cases x)
     (auto simp: getattr_default_def primary_key_or_self_def primary_key_def split: option.splits)

lemma RemoteChoiceField_initial:
  assumes "RemoteChoiceField_as_dict env self = (lg, Inr d)"
    and "form_or_field_initial self = Inr initial"
  shows "dict_get d ''initial'' = Inr initial"
proof -
  from assms(1) obtain d0 out where d0: "RemoteField_as_dict env self = (lg, Inr d0)"
    and d: "d = AList.update ''choices'' out d0"
    unfolding RemoteChoiceField_as_dict_def
    by (elim after_super_InrE bind_err_InrE) auto
  from RemoteField_initial [OF d0] assms(2) have "dict_get d0 ''initial'' = Inr initial" by auto
  with d show ?thesis by (simp add: dict_get_update_other)
qed

lemma RemoteModelChoiceField_initial:
  assumes "RemoteModelChoiceField_as_dict env self = (lg, Inr d)"
    and "form_or_field_initial self = Inr initial"
  shows "dict_get d ''initial'' = Inr (primary_key_or_self initial)"
proof -
  from assms(1) obtain d0 i where d0: "RemoteChoiceField_as_dict env self = (lg, Inr d0)"
    and i: "dict_get d0 ''initial'' = Inr i"
    and d: "d = AList.update ''initial'' (getattr_default i ''pk'' i) d0"
    unfolding RemoteModelChoiceField_as_dict_def
    by (elim after_super_InrE bind_err_InrE) auto
  from RemoteChoiceField_initial [OF d0 assms(2)] i have "i = initial" by simp
  with d show ?thesis by (simp add: dict_get_update_same getattr_default_pk)
qed

lemma RemoteModelMultipleChoiceField_initial:
  assumes "RemoteModelMultipleChoiceField_as_dict env self = (lg, Inr d)"
    and "form_or_field_initial self = Inr initial"
  shows "dict_get d ''initial'' =
           Inr (case initial of PList xs \<Rightarrow> PList (map primary_key_or_self xs)
                | _ \<Rightarrow> primary_key_or_self initial)"
proof -
  from assms(1) obtain d0 i where d0: "RemoteChoiceField_as_dict env self = (lg, Inr d0)"
    and i: "dict_get d0 ''initial'' = Inr i"
    and d: "d = AList.update ''initial''
                 (case i of PList xs \<Rightarrow> PList (map (\<lambda>i. getattr_default i ''pk'' i) xs)
                  | _ \<Rightarrow> getattr_default i ''pk'' i) d0"
    unfolding RemoteModelMultipleChoiceField_as_dict_def RemoteMultipleChoiceField_as_dict_def
    by (elim after_super_InrE bind_err_InrE) (auto split: pyval.splits)
  from RemoteChoiceField_initial [OF d0 assms(2)] i have "i = initial" by simp
  with d show ?thesis
    by (cases initial) (simp_all add: dict_get_update_same getattr_default_pk)
qed

text \<open>
  C4. Let the initial value of the adapter (the form's value, or the field's own) be
  \<open>initial\<close>. When a model choice adapter or a multiple model choice adapter returns a
  dictionary, its \<open>initial\<close> key holds the primary key of \<open>initial\<close> if \<open>initial\<close> exposes
  one, and \<open>initial\<close> itself if it exposes none; for the multiple adapter with a list as
  initial value, it holds the list in which each element that exposes a primary key is
  replaced by it and every other element is kept.
\<close>

theorem model_choice_initial_is_primary_key:
  assumes "form_or_field_initial self = Inr initial"
  shows "(RemoteModelChoiceField_as_dict env self = (lg, Inr d) \<longrightarrow>
            (\<forall>pk. primary_key initial = Some pk \<longrightarrow> dict_get d ''initial'' = Inr pk) \<and>
            (primary_key initial = None \<longrightarrow> dict_get d ''initial'' = Inr initial)) \<and>
         (RemoteModelMultipleChoiceField_as_dict env self = (lg, Inr d) \<longrightarrow>
            (\<forall>pk. primary_key initial = Some pk \<longrightarrow> dict_get d ''initial'' = Inr pk) \<and>
            (primary_key initial = None \<and> (\<forall>xs. initial \<noteq> PList xs) \<longrightarrow>
               dict_get d ''initial'' = Inr initial) \<and>
            (\<forall>xs. initial = PList xs \<longrightarrow>
               dict_get d ''initial'' = Inr (PList (map primary_key_or_self xs))))"
proof (intro conjI impI allI)
  fix pk
  assume "RemoteModelChoiceField_as_dict env self = (lg, Inr d)" "primary_key initial = Some pk"
  with RemoteModelChoiceField_initial [OF _ assms] show "dict_get d ''initial'' = Inr pk"
    by (simp add: primary_key_or_self_def)
next
  assume "RemoteModelChoiceField_as_dict env self = (lg, Inr d)" "primary_key initial = None"
  with RemoteModelChoiceField_initial [OF _ assms] show "dict_get d ''initial'' = Inr initial"
    by (simp add: primary_key_or_self_def)
next
  fix pk
  assume a: "RemoteModelMultipleChoiceField_as_dict env self = (lg, Inr d)"
    "primary_key initial = Some pk"
  then obtain c attrs where "initial = PObj c attrs"
    by (cases initial) (simp_all add: primary_key_def)
  with RemoteModelMultipleChoiceField_initial [OF a(1) assms] a(2)
  show "dict_get d ''initial'' = Inr pk"
    by (simp add: primary_key_or_self_def)
next
  assume a: "RemoteModelMultipleChoiceField_as_dict env self = (lg, Inr d)"
    "primary_key initial = None \<and> (\<forall>xs. initial \<noteq> PList xs)"
  with RemoteModelMultipleChoiceField_initial [OF a(1) assms]
  show "dict_get d ''initial'' = Inr initial"
    by (cases initial) (simp_all add: primary_key_or_self_def)
next
  fix xs
  assume a: "RemoteModelMultipleChoiceField_as_dict env self = (lg, Inr d)"
    "initial = PList xs"
  with RemoteModelMultipleChoiceField_initial [OF a(1) assms]
  show "dict_get d ''initial'' = Inr (PList (map primary_key_or_self xs))"
    by simp
qed

theorem model_choice_initial_is_primary_key_witness:
  "form_or_field_initial author_adapter = Inr author \<and>
   primary_key author = Some (PInt 7) \<and>
   (\<exists>d. RemoteModelChoiceField_as_dict example_env author_adapter = ([], Inr d) \<and>
        dict_get d ''initial'' = Inr (PInt 7)) \<and>
   form_or_field_initial authors_adapter = Inr (PList [author, PInt 3]) \<and>
   (\<exists>d. RemoteModelMultipleChoiceField_as_dict example_env authors_adapter = ([], Inr d) \<and>
        dict_get d ''initial'' = Inr (PList [PInt 7, PInt 3]))"
proof -
  let ?rest = "[(''help_text'', PStr []), (''disabled'', PBool False),
       (''error_messages'', PDict [(''required'', PStr ''This field is required.'')]),
       (''widget'', PDict [(''title'', PStr ''Select''), (''name'', PStr ''author'')]),
       (''choices'', PList [PDict [(''value'', PStr ''7''), (''display'', PStr ''Ada'')],
                            PDict [(''value'', PStr ''3''), (''display'', PStr ''Bob'')]])]"
  let ?rests = "[(''help_text'', PStr []), (''disabled'', PBool False),
       (''error_messages'', PDict [(''required'', PStr ''This field is required.'')]),
       (''widget'', PDict [(''title'', PStr ''Select''), (''name'', PStr ''authors'')]),
       (''choices'', PList [PDict [(''value'', PStr ''7''), (''display'', PStr ''Ada'')],
                            PDict [(''value'', PStr ''3''), (''display'', PStr ''Bob'')]])]"
  let ?one = "[(''title'', PStr ''ModelChoiceField''), (''required'', PBool True),
       (''label'', PStr ''Label''), (''initial'', PInt 7)] @ ?rest"
  let ?many = "[(''title'', PStr ''ModelMultipleChoiceField''), (''required'', PBool True),
       (''label'', PStr ''Label''), (''initial'', PList [PInt 7, PInt 3])] @ ?rests"
  have i1: "form_or_field_initial author_adapter = Inr author"
    by (simp add: form_or_field_initial_def author_adapter_def author_def)
  have pk: "primary_key author = Some (PInt 7)"
    by (simp add: primary_key_def author_def)
  have r1: "RemoteModelChoiceField_as_dict example_env author_adapter = ([], Inr ?one)"
    by code_simp
  have i2: "form_or_field_initial authors_adapter = Inr (PList [author, PInt 3])"
    by (simp add: form_or_field_initial_def authors_adapter_def)
  have r2: "RemoteModelMultipleChoiceField_as_dict example_env authors_adapter = ([], Inr ?many)"
    by code_simp
  have m: "map primary_key_or_self [author, PInt 3] = [PInt 7, PInt 3]"
    by (simp add: primary_key_or_self_def primary_key_def author_def)
  from model_choice_initial_is_primary_key [OF i1, of example_env "[]" ?one] r1 pk
  have "dict_get ?one ''initial'' = Inr (PInt 7)" by blast
  moreover
  from model_choice_initial_is_primary_key [OF i2, of example_env "[]" ?many] r2 m
  have "dict_get ?many ''initial'' = Inr (PList [PInt 7, PInt 3])" by metis
  ultimately show ?thesis using i1 pk r1 i2 r2 by blast
qed

section \<open>The comma-separated adapter and the form's initial value\<close>

text \<open>What the loop over the tokens does to the list: it appends, once each and in order,
  the synthesized entries that the list does not hold.\<close>

lemma append_initial_options_result:
  assumes "getattr fld ''validate_choices'' = Inr vc"
  shows "\<exists>new. append_initial_options fld toks cs = Inr (cs @ new) \<and> distinct new \<and>
           set new \<inter> set cs = {} \<and> set new = initial_option vc ` set toks - set cs"
proof (induction toks arbitrary: cs)
  case Nil
  show ?case by simp
next
  case (Cons t toks)
  let ?e = "initial_option vc t"
  let ?cs1 = "if ?e \<notin> set cs then cs @ [?e] else cs"
  from Cons [of ?cs1] obtain new where new: "append_initial_options fld toks ?cs1 = Inr (?cs1 @ new)"
    "distinct new" "set new \<inter> set ?cs1 = {}" "set new = initial_option vc ` set toks - set ?cs1"
    by blast
  have step: "append_initial_options fld (t # toks) cs = append_initial_options fld toks ?cs1"
    using assms by (simp add: bind_err_def initial_option_def Let_def)
  show ?case
  proof (cases "?e \<in> set cs")
    case True
    with new step show ?thesis by (intro exI [of _ new]) auto
  next
    case False
    with new step show ?thesis by (intro exI [of _ "?e # new"]) auto
  qed
qed

text \<open>
  C7. A token whose entry the loop of lines 224-232 finds in the list is not appended
  again, and a token that no declared choice has as its value gets one entry with the
  stated label. But the test compares the whole synthesized entry, label included: with
  choice validation enabled, a token that is a declared choice (here \<^verbatim>\<open>('a', 'a')\<close>, the
  shape \<^verbatim>\<open>prepare_value\<close> tests for) is appended once more, marked as not valid.
\<close>

theorem declared_token_is_marked_not_valid:
  "RemoteCommaSeparatedField_as_dict example_env comma_adapter =
     ([], Inr [(''title'', PStr ''CommaSeparatedField''), (''required'', PBool True),
               (''label'', PStr ''Label''), (''initial'', PStr ''a''),
               (''help_text'', PStr []), (''disabled'', PBool False),
               (''error_messages'', PDict [(''required'', PStr ''This field is required.'')]),
               (''widget'', PDict [(''title'', PStr ''Select''), (''name'', PStr ''tags'')]),
               (''choices'',
                PList [PDict [(''value'', PStr ''a''), (''display'', PStr ''a'')],
                       PDict [(''value'', PStr ''a''),
                              (''display'', PStr ''a (Not valid)'')]])])"
  by code_simp

text \<open>The value under \<^verbatim>\<open>'initial'\<close>, by the truth value of the form's value.\<close>

lemma initial_is_override_when_true:
  assumes "RemoteField_as_dict env self = (lg, Inr d)" and "truthy (form_initial_data self)"
  shows "dict_get d ''initial'' = Inr (form_initial_data self)"
  using RemoteField_initial [OF assms(1)] assms(2) by (auto simp: form_or_field_initial_def)

lemma initial_is_field_initial_when_false:
  assumes "RemoteField_as_dict env self = (lg, Inr d)" and "\<not> truthy (form_initial_data self)"
  shows "dict_get d ''initial'' = getattr (field self) ''initial''"
  using RemoteField_initial [OF assms(1)] assms(2) by (auto simp: form_or_field_initial_def)

text \<open>
  C8. A true value supplied by the form takes precedence. A false one (\<^verbatim>\<open>False\<close>, \<^verbatim>\<open>0\<close>,
  an empty string or list) does not: \<^verbatim>\<open>or\<close> falls through to the field's own initial
  value. A boolean field declared with initial \<^verbatim>\<open>True\<close> and overridden by the form with
  \<^verbatim>\<open>False\<close> is serialized with \<^verbatim>\<open>True\<close>.
\<close>

theorem false_override_is_dropped:
  "form_initial_data boolean_adapter = PBool False \<and>
   RemoteField_as_dict example_env boolean_adapter =
     ([], Inr [(''title'', PStr ''BooleanField''), (''required'', PBool True),
               (''label'', PStr ''Label''), (''initial'', PBool True),
               (''help_text'', PStr []), (''disabled'', PBool False),
               (''error_messages'', PDict [(''required'', PStr ''This field is required.'')]),
               (''widget'', PDict [(''title'', PStr ''CheckboxInput''),
                                   (''name'', PStr ''subscribe'')])])"
  by code_simp

section \<open>\<^verbatim>\<open>CommaSeparatedField\<close>: preparing and cleaning a value\<close>

lemma append_not_valid_off: "append_not_valid False vs cs = cs"
  by (induction vs arbitrary: cs) auto

lemma append_not_valid_appends:
  "\<exists>new. append_not_valid b vs cs = cs @ new \<and>
     (\<forall>(k, l) \<in> set new. \<exists>t \<in> set vs. t \<noteq> [] \<and> k = PStr t \<and> l = PStr (t @ '' (Not valid)''))"
proof (induction vs arbitrary: cs)
  case Nil
  show ?case by simp
next
  case (Cons v vs)
  let ?cs' = "if b \<and> v \<noteq> [] \<and> (PStr v, PStr v) \<notin> set cs
              then cs @ [(PStr v, PStr (v @ '' (Not valid)''))] else cs"
  from Cons [of ?cs'] obtain new where
    new: "append_not_valid b vs ?cs' = ?cs' @ new"
      "\<forall>(k, l) \<in> set new. \<exists>t \<in> set vs. t \<noteq> [] \<and> k = PStr t \<and> l = PStr (t @ '' (Not valid)'')"
    by blast
  show ?case
  proof (cases "b \<and> v \<noteq> [] \<and> (PStr v, PStr v) \<notin> set cs")
    case True
    with new have
      "append_not_valid b (v # vs) cs = cs @ ((PStr v, PStr (v @ '' (Not valid)'')) # new)"
      by simp
    moreover from True new(2) have
      "\<forall>(k, l) \<in> set ((PStr v, PStr (v @ '' (Not valid)'')) # new).
         \<exists>t \<in> set (v # vs). t \<noteq> [] \<and> k = PStr t \<and> l = PStr (t @ '' (Not valid)'')"
      by auto
    ultimately show ?thesis by blast
  next
    case False
    with new have "append_not_valid b (v # vs) cs = cs @ new" by auto
    moreover from new(2) have
      "\<forall>(k, l) \<in> set new.
         \<exists>t \<in> set (v # vs). t \<noteq> [] \<and> k = PStr t \<and> l = PStr (t @ '' (Not valid)'')"
      by fastforce
    ultimately show ?thesis by blast
  qed
qed

text \<open>A value that is valid stays valid when choices are appended: the loop of
  \<^verbatim>\<open>valid_value\<close> returns at the first match.\<close>

lemma choices_valid_value_append:
  "choices_valid_value other cs v = Inr True \<Longrightarrow>
   choices_valid_value other (cs @ more_choices) v = Inr True"
  by (induction other cs v rule: choices_valid_value.induct)
     (auto simp: bind_err_def split: sum.splits if_splits)

lemma all_valid_tokens:
  "(\<And>t. t \<in> set ts \<Longrightarrow> valid t = Inr True) \<Longrightarrow> all_valid valid ts = Inr ()"
  by (induction ts) (auto simp: bind_err_def)

lemma valid_value_after_prepare:
  assumes "ChoiceField_valid_value other self t = Inr True"
  shows "valid_value other (fst (prepare_value self (PStr s))) t = Inr True"
proof -
  obtain new where
    "append_not_valid (validate_choices self) (split CHR '','' s) (choices self) = choices self @ new"
    using append_not_valid_appends by blast
  with assms show ?thesis
    by (simp add: valid_value_def ChoiceField_valid_value_def prepare_value_def Let_def
        choices_valid_value_append)
qed

text \<open>The round trip for any string: when each of its tokens is a valid choice of the field
  and the field's validators let the list of tokens through, cleaning the prepared value
  gives the string back.\<close>

lemma round_trip:
  assumes valid: "\<And>t. t \<in> set (split CHR '','' s) \<Longrightarrow>
                    ChoiceField_valid_value other self t = Inr True"
    and accepted: "list_all (\<lambda>accepts. accepts (split CHR '','' s)) (validators self)"
    and prep: "prepare_value self (PStr s) = (self', v)"
  shows "clean other self' v = Inr (PStr s)"
proof -
  let ?ts = "split CHR '','' s"
  have v: "v = PList (map PStr ?ts)" and self': "self' = fst (prepare_value self (PStr s))"
    using prep by (auto simp: prepare_value_def Let_def)
  have ne: "?ts \<noteq> []" by (rule split_not_Nil)
  have py: "MultipleChoiceField_to_python other v = Inr ?ts"
    using ne by (simp add: v MultipleChoiceField_to_python_def comp_def)
  have "\<And>t. t \<in> set ?ts \<Longrightarrow> valid_value other self' t = Inr True"
    unfolding self' using valid by (rule valid_value_after_prepare)
  then have "all_valid (valid_value other self') ?ts = Inr ()"
    by (rule all_valid_tokens)
  then have val: "MultipleChoiceField_validate (valid_value other self') self' ?ts = Inr ()"
    using ne by (simp add: MultipleChoiceField_validate_def)
  have "validators self' = validators self"
    by (simp add: self' prepare_value_def Let_def)
  then have run: "Field_run_validators self' ?ts = Inr ()"
    using accepted by (simp add: Field_run_validators_def)
  have "MultipleChoiceField_clean (valid_value other self') other self' v = Inr ?ts"
    by (simp add: MultipleChoiceField_clean_def py val run bind_err_def)
  then show ?thesis
    using join_split [of "CHR '',''" s] by (simp add: clean_def bind_err_def)
qed

text \<open>
  C5. For a field whose declared choices make \<^verbatim>\<open>a\<close>, \<^verbatim>\<open>b\<close> and \<^verbatim>\<open>c\<close> valid values
  (Django's membership test on the declared choices answers true for each) and whose
  validators accept the three values, \<^verbatim>\<open>prepare_value("a,b,c")\<close> followed by
  \<^verbatim>\<open>clean\<close> on the same field returns the string \<^verbatim>\<open>"a,b,c"\<close>.
\<close>

theorem clean_prepare_value_round_trip:
  assumes "ChoiceField_valid_value other self ''a'' = Inr True"
    and "ChoiceField_valid_value other self ''b'' = Inr True"
    and "ChoiceField_valid_value other self ''c'' = Inr True"
    and "list_all (\<lambda>accepts. accepts [''a'', ''b'', ''c'']) (validators self)"
    and "prepare_value self (PStr ''a,b,c'') = (self', v)"
  shows "clean other self' v = Inr (PStr ''a,b,c'')"
proof (rule round_trip [OF _ _ assms(5)])
  fix t assume "t \<in> set (split CHR '','' ''a,b,c'')"
  then have "t = ''a'' \<or> t = ''b'' \<or> t = ''c''" by simp
  with assms(1-3) show "ChoiceField_valid_value other self t = Inr True" by blast
next
  from assms(4) show "list_all (\<lambda>accepts. accepts (split CHR '','' ''a,b,c'')) (validators self)"
    by simp
qed

theorem clean_prepare_value_round_trip_witness:
  "ChoiceField_valid_value (\<lambda>x. []) abc_field ''a'' = Inr True \<and>
   ChoiceField_valid_value (\<lambda>x. []) abc_field ''b'' = Inr True \<and>
   ChoiceField_valid_value (\<lambda>x. []) abc_field ''c'' = Inr True \<and>
   list_all (\<lambda>accepts. accepts [''a'', ''b'', ''c'']) (validators abc_field) \<and>
   prepare_value abc_field (PStr ''a,b,c'') =
     (abc_field\<lparr>choices := choices abc_field @
         [(PStr ''a'', PStr ''a (Not valid)''), (PStr ''c'', PStr ''c (Not valid)'')]\<rparr>,
      PList [PStr ''a'', PStr ''b'', PStr ''c'']) \<and>
   clean (\<lambda>x. [])
     (abc_field\<lparr>choices := choices abc_field @
         [(PStr ''a'', PStr ''a (Not valid)''), (PStr ''c'', PStr ''c (Not valid)'')]\<rparr>)
     (PList [PStr ''a'', PStr ''b'', PStr ''c'']) = Inr (PStr ''a,b,c'')"
proof -
  have 1: "ChoiceField_valid_value (\<lambda>x. []) abc_field ''a'' = Inr True"
    by (simp add: ChoiceField_valid_value_def abc_field_def)
  have 2: "ChoiceField_valid_value (\<lambda>x. []) abc_field ''b'' = Inr True"
    by (simp add: ChoiceField_valid_value_def abc_field_def)
  have 3: "ChoiceField_valid_value (\<lambda>x. []) abc_field ''c'' = Inr True"
    by (simp add: ChoiceField_valid_value_def abc_field_def decimal.simps digit_char_def)
  have 4: "list_all (\<lambda>accepts. accepts [''a'', ''b'', ''c'']) (validators abc_field)"
    by (simp add: abc_field_def)
  have 5: "prepare_value abc_field (PStr ''a,b,c'') =
     (abc_field\<lparr>choices := choices abc_field @
         [(PStr ''a'', PStr ''a (Not valid)''), (PStr ''c'', PStr ''c (Not valid)'')]\<rparr>,
      PList [PStr ''a'', PStr ''b'', PStr ''c''])"
    by (simp add: prepare_value_def abc_field_def)
  from clean_prepare_value_round_trip [OF 1 2 3 4 5] 1 2 3 4 5 show ?thesis by blast
qed

text \<open>
  C6 (amended). With \<^verbatim>\<open>validate_choices=False\<close>, \<^verbatim>\<open>prepare_value("x,y")\<close> registers no
  new choice: the field is left as it was, the value returned is the list of the two
  tokens, and \<^verbatim>\<open>valid_value\<close> answers true for each of them.
\<close>

theorem prepare_value_without_validation:
  assumes "\<not> validate_choices self"
  shows "prepare_value self (PStr ''x,y'') = (self, PList [PStr ''x'', PStr ''y'']) \<and>
         valid_value other self ''x'' = Inr True \<and> valid_value other self ''y'' = Inr True"
  using assms by (simp add: prepare_value_def append_not_valid_off valid_value_def)

theorem prepare_value_without_validation_witness:
  "\<not> validate_choices open_field \<and>
   prepare_value open_field (PStr ''x,y'') = (open_field, PList [PStr ''x'', PStr ''y'']) \<and>
   valid_value (\<lambda>x. []) open_field ''x'' = Inr True \<and>
   valid_value (\<lambda>x. []) open_field ''y'' = Inr True"
proof -
  have h: "\<not> validate_choices open_field" by (simp add: open_field_def)
  from prepare_value_without_validation [OF h] h show ?thesis by simp
qed

text \<open>
  C6 as stated, with two choices labelled \<^verbatim>\<open>x\<close> and \<^verbatim>\<open>y\<close> registered by
  \<^verbatim>\<open>prepare_value\<close>, fails: the guard of the comprehension of lines 331-332 is false
  for every token when the field does not validate its choices, and the choices of the
  field after the call are the declared ones.
\<close>

theorem prepare_value_registers_nothing_counterexample:
  "\<not> validate_choices open_field \<and>
   choices (fst (prepare_value open_field (PStr ''x,y''))) = [(PStr ''a'', PStr ''A'')] \<and>
   (PStr ''x'', PStr ''x'') \<notin> set (choices (fst (prepare_value open_field (PStr ''x,y'')))) \<and>
   (PStr ''y'', PStr ''y'') \<notin> set (choices (fst (prepare_value open_field (PStr ''x,y''))))"
  by (simp add: prepare_value_def open_field_def)

text \<open>
  C9. Whenever \<^verbatim>\<open>clean\<close> returns, the standard clean of the multiple-choice field
  returned a list of strings on the same input, and the result is the string made of
  them joined with a comma; and \<^verbatim>\<open>clean\<close> returns whenever the standard clean does.
\<close>

theorem clean_joins_standard_clean:
  "(clean other self v = Inr r \<longrightarrow>
      (\<exists>xs. MultipleChoiceField_clean (valid_value other self) other self v = Inr xs \<and>
            r = PStr (join '','' xs))) \<and>
   (MultipleChoiceField_clean (valid_value other self) other self v = Inr xs \<longrightarrow>
      clean other self v = Inr (PStr (join '','' xs)))"
  by (auto simp: clean_def bind_err_def split: sum.splits)

theorem clean_joins_standard_clean_witness:
  "clean (\<lambda>x. []) abc_field (PList [PStr ''a'', PInt 3]) = Inr (PStr ''a,3'') \<and>
   MultipleChoiceField_clean (valid_value (\<lambda>x. []) abc_field) (\<lambda>x. []) abc_field
     (PList [PStr ''a'', PInt 3]) = Inr [''a'', ''3''] \<and>
   PStr ''a,3'' = PStr (join '','' [''a'', ''3''])"
proof -
  have c: "clean (\<lambda>x. []) abc_field (PList [PStr ''a'', PInt 3]) = Inr (PStr ''a,3'')"
    by code_simp
  from clean_joins_standard_clean
         [of "\<lambda>x. []" abc_field "PList [PStr ''a'', PInt 3]" "PStr ''a,3''"] c
  obtain xs where
    "MultipleChoiceField_clean (valid_value (\<lambda>x. []) abc_field) (\<lambda>x. []) abc_field
       (PList [PStr ''a'', PInt 3]) = Inr xs" "PStr ''a,3'' = PStr (join '','' xs)"
    by blast
  moreover have
    "MultipleChoiceField_clean (valid_value (\<lambda>x. []) abc_field) (\<lambda>x. []) abc_field
       (PList [PStr ''a'', PInt 3]) = Inr [''a'', ''3'']"
    by code_simp
  ultimately show ?thesis using c by simp
qed

text \<open>
  C10. For a string input, the value returned is the list of all the tokens between the
  commas, the empty ones included; the choices of the field afterwards are its choices
  before followed by newly registered ones; each new choice has a non-empty token of the
  input as its key, and none has the empty string as its key.
\<close>

theorem prepare_value_skips_empty_tokens:
  assumes "prepare_value self (PStr s) = (self', r)"
  shows "\<exists>new. r = PList (map PStr (split CHR '','' s)) \<and>
           choices self' = choices self @ new \<and>
           (\<forall>(k, l) \<in> set new. \<exists>t \<in> set (split CHR '','' s). t \<noteq> [] \<and> k = PStr t) \<and>
           (\<forall>l. (PStr [], l) \<notin> set new)"
proof -
  obtain new where
    new: "append_not_valid (validate_choices self) (split CHR '','' s) (choices self)
            = choices self @ new"
      "\<forall>(k, l) \<in> set new. \<exists>t \<in> set (split CHR '','' s).
          t \<noteq> [] \<and> k = PStr t \<and> l = PStr (t @ '' (Not valid)'')"
    using append_not_valid_appends by blast
  from new(2) have "\<forall>(k, l) \<in> set new. \<exists>t \<in> set (split CHR '','' s). t \<noteq> [] \<and> k = PStr t"
    by fastforce
  moreover from new(2) have "\<forall>l. (PStr [], l) \<notin> set new" by fastforce
  moreover from assms new(1) have "r = PList (map PStr (split CHR '','' s))"
    "choices self' = choices self @ new"
    by (auto simp: prepare_value_def Let_def)
  ultimately show ?thesis by blast
qed

theorem prepare_value_skips_empty_tokens_witness:
  "prepare_value abc_field (PStr '',x,,b,'') =
     (abc_field\<lparr>choices := choices abc_field @ [(PStr ''x'', PStr ''x (Not valid)'')]\<rparr>,
      PList [PStr [], PStr ''x'', PStr [], PStr ''b'', PStr []]) \<and>
   (\<exists>new. PList [PStr [], PStr ''x'', PStr [], PStr ''b'', PStr []] =
             PList (map PStr (split CHR '','' '',x,,b,'')) \<and>
          choices abc_field @ [(PStr ''x'', PStr ''x (Not valid)'')] = choices abc_field @ new \<and>
          new = [(PStr ''x'', PStr ''x (Not valid)'')])"
proof -
  have p: "prepare_value abc_field (PStr '',x,,b,'') =
     (abc_field\<lparr>choices := choices abc_field @ [(PStr ''x'', PStr ''x (Not valid)'')]\<rparr>,
      PList [PStr [], PStr ''x'', PStr [], PStr ''b'', PStr []])"
    by (simp add: prepare_value_def abc_field_def)
  from prepare_value_skips_empty_tokens [OF p] p show ?thesis by simp
qed

end
